theory Spec2Isabelle
  imports Complex_Main "HOL-Library.AList"
begin

section \<open>Model registry and promotion (services/api/app/api/v1/endpoints/admin.py)\<close>

text \<open>
  The table \<open>ml_model\<close> (class \<open>MLModel\<close>) is a list of rows in storage order. Only the
  columns read or written by the endpoints modelled here are kept. The column \<open>status\<close> is the
  SQL enum \<open>staged | prod | archived\<close>; a timestamp is a number of seconds.
\<close>

datatype model_status = Staged | Prod | Archived

type_synonym datetime = int

record ml_model =
  m_id :: int
  m_model_name :: string
  m_version :: string
  m_metrics_json :: string
  m_status :: model_status
  m_promoted_at :: "datetime option"
  m_promoted_by :: "string option"

text \<open>Rows of \<open>auth_audit_log\<close> written by \<open>promote_model\<close>.\<close>

record auth_audit_log =
  l_user_id :: int
  l_action :: string
  l_entity_type :: string
  l_entity_id :: string
  l_ip_address :: "string option"
  l_previous_status :: model_status
  l_new_status :: model_status

text \<open>The part of the database a promotion request reads and writes.\<close>

record registry =
  ml_models :: "ml_model list"
  audit_logs :: "auth_audit_log list"

text \<open>
  \<open>HTTPException(status_code, detail)\<close> as raised by the endpoints; \<open>MultipleResultsFound\<close>
  is what \<open>scalar_one_or_none()\<close> raises on more than one row, \<open>ValueError\<close> what
  \<open>int(current_user.sub)\<close> raises on a subject that \<open>int\<close> does not read, \<open>DBAPIError\<close> what
  the commit of the session raises when the database refuses a written row.
\<close>

datatype error = HTTPException nat string | MultipleResultsFound | ValueError | DBAPIError

definition HTTP_404_NOT_FOUND :: nat where
  "HTTP_404_NOT_FOUND = 404"

definition HTTP_400_BAD_REQUEST :: nat where
  "HTTP_400_BAD_REQUEST = 400"

record promote_model_request =
  req_model_name :: string
  req_version :: string

record token_payload =
  tp_sub :: string
  tp_email :: string

record promote_model_response =
  pr_model_name :: string
  pr_version :: string
  pr_previous_status :: model_status
  pr_new_status :: model_status
  pr_promoted_at :: datetime

text \<open>
  \<open>select(MLModel).where(model_name == n, version == v)\<close> followed by
  \<open>scalar_one_or_none()\<close>.
\<close>

definition select_model :: "ml_model list \<Rightarrow> string \<Rightarrow> string \<Rightarrow> ml_model list" where
  "select_model ms n v = filter (\<lambda>m. m_model_name m = n \<and> m_version m = v) ms"

definition scalar_one_or_none :: "'a list \<Rightarrow> error + 'a option" where
  "scalar_one_or_none rows =
     (case rows of [] \<Rightarrow> Inr None | [r] \<Rightarrow> Inr (Some r) | _ \<Rightarrow> Inl MultipleResultsFound)"

text \<open>
  \<open>update(MLModel).where(model_name == n, status == "prod").values(status="archived")\<close>
\<close>

definition archive_prod :: "string \<Rightarrow> ml_model list \<Rightarrow> ml_model list" where
  "archive_prod n ms =
     map (\<lambda>m. if m_model_name m = n \<and> m_status m = Prod then m\<lparr>m_status := Archived\<rparr> else m) ms"

text \<open>
  The attribute writes on the selected ORM object (\<open>model.status = "prod"\<close>,
  \<open>model.promoted_at = now\<close>, \<open>model.promoted_by = email\<close>), flushed to the one row that
  the select returned.
\<close>

definition write_promoted :: "string \<Rightarrow> string \<Rightarrow> datetime \<Rightarrow> string \<Rightarrow> ml_model list \<Rightarrow> ml_model list" where
  "write_promoted n v now email ms =
     map (\<lambda>m. if m_model_name m = n \<and> m_version m = v
               then m\<lparr>m_status := Prod, m_promoted_at := Some now, m_promoted_by := Some email\<rparr>
               else m) ms"

definition not_found_detail :: "string \<Rightarrow> string \<Rightarrow> string" where
  "not_found_detail n v = ''Model '' @ n @ '' version '' @ v @ '' not found''"

text \<open>
  \<open>promote_model\<close>: the result of the request and the database after it. The session
  (\<open>get_session\<close>) commits when the endpoint has returned and rolls back when the endpoint or
  the commit raises, so a failing request leaves the database as it found it. Two things the
  endpoint relies on are parameters: \<open>int_of\<close> is Python's \<open>int\<close> on strings (\<open>None\<close> where
  it raises \<open>ValueError\<close>), and \<open>accepts\<close> tells whether the database takes the rows of the
  commit (column ranges and widths, foreign keys). \<open>now\<close> is \<open>datetime.now(timezone.utc)\<close>,
  \<open>ip\<close> is \<open>request.client.host\<close> when there is a client.
\<close>

definition promote_model ::
  "(string \<Rightarrow> int option) \<Rightarrow> (registry \<Rightarrow> bool) \<Rightarrow> registry \<Rightarrow> promote_model_request
     \<Rightarrow> token_payload \<Rightarrow> datetime \<Rightarrow> string option
     \<Rightarrow> (error + promote_model_response) \<times> registry" where
  "promote_model int_of accepts db body current_user now ip =
     (case scalar_one_or_none (select_model (ml_models db) (req_model_name body) (req_version body)) of
        Inl e \<Rightarrow> (Inl e, db)
      | Inr None \<Rightarrow>
          (Inl (HTTPException HTTP_404_NOT_FOUND
                  (not_found_detail (req_model_name body) (req_version body))), db)
      | Inr (Some model) \<Rightarrow>
          if m_status model = Prod
          then (Inl (HTTPException HTTP_400_BAD_REQUEST ''Model is already in prod status''), db)
          else
            let previous_status = m_status model;
                archived = archive_prod (req_model_name body) (ml_models db);
                promoted = write_promoted (req_model_name body) (req_version body) now
                             (tp_email current_user) archived
            in (case int_of (tp_sub current_user) of
                  None \<Rightarrow> (Inl ValueError, db)
                | Some uid \<Rightarrow>
                    let audit = \<lparr>l_user_id = uid, l_action = ''promote_model'',
                                 l_entity_type = ''ml_model'',
                                 l_entity_id = req_model_name body @ '':'' @ req_version body,
                                 l_ip_address = ip,
                                 l_previous_status = previous_status, l_new_status = Prod\<rparr>;
                        written = db\<lparr>ml_models := promoted, audit_logs := audit_logs db @ [audit]\<rparr>
                    in if accepts written
                       then (Inr \<lparr>pr_model_name = req_model_name body,
                                  pr_version = req_version body,
                                  pr_previous_status = previous_status, pr_new_status = Prod,
                                  pr_promoted_at = now\<rparr>, written)
                       else (Inl DBAPIError, db)))"

text \<open>
  A sequence of promotion requests for one model name, each its own HTTP request: version,
  caller, time and client address. The database of a request is the one the request before
  it left.
\<close>

type_synonym promote_call = "string \<times> token_payload \<times> datetime \<times> string option"

fun promote_all ::
  "(string \<Rightarrow> int option) \<Rightarrow> (registry \<Rightarrow> bool) \<Rightarrow> string \<Rightarrow> registry \<Rightarrow> promote_call list
     \<Rightarrow> registry" where
  "promote_all int_of accepts n db [] = db"
| "promote_all int_of accepts n db ((v, u, now, ip) # calls) =
     promote_all int_of accepts n
       (snd (promote_model int_of accepts db \<lparr>req_model_name = n, req_version = v\<rparr> u now ip)) calls"

definition prod_models :: "string \<Rightarrow> ml_model list \<Rightarrow> ml_model list" where
  "prod_models n ms = filter (\<lambda>m. m_model_name m = n \<and> m_status m = Prod) ms"

text \<open>
  For the examples: \<open>int\<close> on the one subject they use (\<open>int("7")\<close> is 7) and a database
  that takes every row.
\<close>

definition demo_int :: "string \<Rightarrow> int option" where
  "demo_int s = (if s = ''7'' then Some 7 else None)"

definition demo_accepts :: "registry \<Rightarrow> bool" where
  "demo_accepts db = True"

text \<open>A registry with version \<open>v1\<close> in production and \<open>v2\<close> staged, and the same registry after
  \<open>v2\<close> has been promoted at time 20.\<close>

definition demo_user :: token_payload where
  "demo_user = \<lparr>tp_sub = ''7'', tp_email = ''admin@example.com''\<rparr>"

definition demo_registry :: registry where
  "demo_registry =
     \<lparr>ml_models =
        [\<lparr>m_id = 1, m_model_name = ''demand_forecast'', m_version = ''v1'', m_metrics_json = ''{}'',
          m_status = Prod, m_promoted_at = Some 10, m_promoted_by = Some ''ops@example.com''\<rparr>,
         \<lparr>m_id = 2, m_model_name = ''demand_forecast'', m_version = ''v2'', m_metrics_json = ''{}'',
          m_status = Staged, m_promoted_at = None, m_promoted_by = None\<rparr>],
      audit_logs = []\<rparr>"

definition demo_promoted :: registry where
  "demo_promoted =
     \<lparr>ml_models =
        [\<lparr>m_id = 1, m_model_name = ''demand_forecast'', m_version = ''v1'', m_metrics_json = ''{}'',
          m_status = Archived, m_promoted_at = Some 10, m_promoted_by = Some ''ops@example.com''\<rparr>,
         \<lparr>m_id = 2, m_model_name = ''demand_forecast'', m_version = ''v2'', m_metrics_json = ''{}'',
          m_status = Prod, m_promoted_at = Some 20, m_promoted_by = Some ''admin@example.com''\<rparr>],
      audit_logs =
        [\<lparr>l_user_id = 7, l_action = ''promote_model'', l_entity_type = ''ml_model'',
          l_entity_id = ''demand_forecast:v2'', l_ip_address = None,
          l_previous_status = Staged, l_new_status = Prod\<rparr>]\<rparr>"

definition demo_response :: promote_model_response where
  "demo_response = \<lparr>pr_model_name = ''demand_forecast'', pr_version = ''v2'',
     pr_previous_status = Staged, pr_new_status = Prod, pr_promoted_at = 20\<rparr>"

text \<open>A registry in which two versions of one name are \<open>prod\<close>.\<close>

definition two_prod_registry :: registry where
  "two_prod_registry =
     \<lparr>ml_models =
        [\<lparr>m_id = 1, m_model_name = ''demand_forecast'', m_version = ''v1'', m_metrics_json = ''{}'',
          m_status = Prod, m_promoted_at = Some 10, m_promoted_by = Some ''ops@example.com''\<rparr>,
         \<lparr>m_id = 2, m_model_name = ''demand_forecast'', m_version = ''v2'', m_metrics_json = ''{}'',
          m_status = Prod, m_promoted_at = Some 11, m_promoted_by = Some ''ops@example.com''\<rparr>],
      audit_logs = []\<rparr>"

section \<open>Forecast serving (services/api/app/api/v1/endpoints/forecast.py, app/db/redis.py)\<close>

text \<open>
  A Python \<open>date\<close> is its proleptic Gregorian ordinal (\<open>date.toordinal()\<close>), so that
  \<open>d + timedelta(days=k)\<close> is \<open>d + k\<close>. \<open>civil\<close> gives year, month and day of an ordinal.
\<close>

type_synonym date = int

definition civil :: "date \<Rightarrow> int \<times> int \<times> int" where
  "civil n =
     (let z = n + 305;
          era = z div 146097;
          doe = z - era * 146097;
          yoe = (doe - doe div 1460 + doe div 36524 - doe div 146096) div 365;
          doy = doe - (365 * yoe + yoe div 4 - yoe div 100);
          mp = (5 * doy + 2) div 153;
          d = doy - (153 * mp + 2) div 5 + 1;
          m = (if mp < 10 then mp + 3 else mp - 9);
          y = yoe + era * 400 + (if m \<le> 2 then 1 else 0)
      in (y, m, d))"

definition digit_char :: "nat \<Rightarrow> char" where
  "digit_char k = ''0123456789'' ! (k mod 10)"

definition pad2 :: "int \<Rightarrow> string" where
  "pad2 k = [digit_char (nat k div 10), digit_char (nat k)]"

definition pad4 :: "int \<Rightarrow> string" where
  "pad4 k = [digit_char (nat k div 1000), digit_char (nat k div 100), digit_char (nat k div 10),
             digit_char (nat k)]"

text \<open>\<open>d.isoformat()\<close> and \<open>int(d.strftime("%Y%m%d"))\<close>, for years 1 to 9999.\<close>

definition isoformat :: "date \<Rightarrow> string" where
  "isoformat dt = (case civil dt of (y, m, d) \<Rightarrow> pad4 y @ ''-'' @ pad2 m @ ''-'' @ pad2 d)"

definition date_key_of :: "date \<Rightarrow> int" where
  "date_key_of dt = (case civil dt of (y, m, d) \<Rightarrow> y * 10000 + m * 100 + d)"

text \<open>The tables the endpoint reads, with the columns it uses.\<close>

record dim_product =
  p_product_id :: int
  p_sku :: string

record dim_location =
  loc_location_id :: int
  loc_region :: string

record dim_date =
  dd_date_key :: int
  dd_date :: date

record ml_model_assignment =
  a_product_id :: int
  a_location_id :: int
  a_model_id :: int

record fact_forecast =
  ff_date_key :: int
  ff_product_id :: int
  ff_location_id :: int
  ff_forecast_units :: int
  ff_prediction_interval_low :: int
  ff_prediction_interval_high :: int
  ff_model_version :: string

record fact_sales =
  fs_date_key :: int
  fs_product_id :: int
  fs_location_id :: int
  fs_units_sold :: int

record warehouse =
  dim_products :: "dim_product list"
  dim_locations :: "dim_location list"
  dim_dates :: "dim_date list"
  model_assignments :: "ml_model_assignment list"
  registered_models :: "ml_model list"
  fact_forecasts :: "fact_forecast list"
  fact_sales_rows :: "fact_sales list"

record forecast_point =
  fp_date :: string
  fp_forecast_units :: int
  fp_interval_low :: int
  fp_interval_high :: int
  fp_actual_units :: "int option"

record forecast_response =
  fr_sku :: string
  fr_region :: string
  fr_model_version :: string
  fr_model_name :: string
  fr_metrics :: string
  fr_forecasts :: "forecast_point list"

text \<open>
  The Redis client: \<open>None\<close> while \<open>_redis\<close> is not initialised, otherwise the live entries
  (an entry is live until its TTL of 3600 seconds has passed). The entries of the forecast keys
  are the dumped responses.
\<close>

type_synonym redis = "(string \<times> forecast_response) list option"

definition cache_get :: "redis \<Rightarrow> string \<Rightarrow> forecast_response option" where
  "cache_get r key = (case r of None \<Rightarrow> None | Some entries \<Rightarrow> map_of entries key)"

definition cache_set :: "redis \<Rightarrow> string \<Rightarrow> forecast_response \<Rightarrow> redis" where
  "cache_set r key val =
     (case r of None \<Rightarrow> None | Some entries \<Rightarrow> Some (AList.update key val entries))"

definition forecast_cache_key :: "string \<Rightarrow> string \<Rightarrow> string \<Rightarrow> string" where
  "forecast_cache_key sku region dt = ''forecast:'' @ sku @ '':'' @ region @ '':'' @ dt"

text \<open>
  The join of \<open>ml_model_assignment\<close> with \<open>ml_model\<close> on \<open>model_id = id\<close>, restricted to
  the pair and to \<open>MLModel.status == "prod"\<close>.
\<close>

definition select_assignment ::
  "warehouse \<Rightarrow> int \<Rightarrow> int \<Rightarrow> (ml_model_assignment \<times> ml_model) list" where
  "select_assignment wh pid lid =
     filter (\<lambda>(a, m). a_model_id a = m_id m \<and> a_product_id a = pid \<and> a_location_id a = lid \<and>
                      m_status m = Prod)
       (List.product (model_assignments wh) (registered_models wh))"

text \<open>\<open>.first()\<close> and \<open>.limit(1)\<close> followed by \<open>scalar_one_or_none()\<close>.\<close>

definition first_row :: "'a list \<Rightarrow> 'a option" where
  "first_row rows = (case rows of [] \<Rightarrow> None | r # _ \<Rightarrow> Some r)"

text \<open>
  The forecast query: \<open>fact_forecast\<close> joined with \<open>dim_date\<close> on the date key, for the
  pair, the model version and the key range, ordered by date.
\<close>

definition select_forecasts ::
  "warehouse \<Rightarrow> int \<Rightarrow> int \<Rightarrow> string \<Rightarrow> int \<Rightarrow> int \<Rightarrow> (dim_date \<times> fact_forecast) list" where
  "select_forecasts wh pid lid ver start_key end_key =
     sort_key (\<lambda>(dd, ff). dd_date dd)
       (filter (\<lambda>(dd, ff). ff_date_key ff = dd_date_key dd \<and> ff_product_id ff = pid \<and>
                  ff_location_id ff = lid \<and> ff_model_version ff = ver \<and>
                  start_key \<le> ff_date_key ff \<and> ff_date_key ff \<le> end_key)
          (List.product (dim_dates wh) (fact_forecasts wh)))"

definition select_actuals ::
  "warehouse \<Rightarrow> int \<Rightarrow> int \<Rightarrow> int \<Rightarrow> int \<Rightarrow> (dim_date \<times> fact_sales) list" where
  "select_actuals wh pid lid start_key end_key =
     filter (\<lambda>(dd, fs). fs_date_key fs = dd_date_key dd \<and> fs_product_id fs = pid \<and>
                fs_location_id fs = lid \<and> start_key \<le> fs_date_key fs \<and> fs_date_key fs \<le> end_key)
       (List.product (dim_dates wh) (fact_sales_rows wh))"

text \<open>
  The dictionary \<open>forecast_dates\<close>, keyed by date, in insertion order: the first loop stores a
  point per forecast row, the second sets \<open>actual_units\<close> on the points whose date has sales.
\<close>

definition forecast_point_of :: "dim_date \<times> fact_forecast \<Rightarrow> forecast_point" where
  "forecast_point_of row =
     (case row of (dd, ff) \<Rightarrow>
        \<lparr>fp_date = isoformat (dd_date dd), fp_forecast_units = ff_forecast_units ff,
         fp_interval_low = ff_prediction_interval_low ff,
         fp_interval_high = ff_prediction_interval_high ff, fp_actual_units = None\<rparr>)"

definition store_forecasts ::
  "(dim_date \<times> fact_forecast) list \<Rightarrow> (date \<times> forecast_point) list" where
  "store_forecasts rows =
     fold (\<lambda>row dict. AList.update (dd_date (fst row)) (forecast_point_of row) dict) rows []"

definition store_actuals ::
  "(dim_date \<times> fact_sales) list \<Rightarrow> (date \<times> forecast_point) list \<Rightarrow> (date \<times> forecast_point) list" where
  "store_actuals rows forecast_dates =
     fold (\<lambda>row dict.
             case map_of dict (dd_date (fst row)) of
               None \<Rightarrow> dict
             | Some pt \<Rightarrow>
                 AList.update (dd_date (fst row)) (pt\<lparr>fp_actual_units := Some (fs_units_sold (snd row))\<rparr>) dict)
       rows forecast_dates"

definition no_model_response :: "string \<Rightarrow> string \<Rightarrow> forecast_response" where
  "no_model_response sku region =
     \<lparr>fr_sku = sku, fr_region = region, fr_model_version = ''none'',
      fr_model_name = ''No model assigned'', fr_metrics = ''{}'', fr_forecasts = []\<rparr>"

text \<open>
  The response assembled from the rows of the model's version: the forecast query, the two
  loops over its rows and over the sales of the range, and the \<open>ForecastResponse\<close> built
  from the dictionary's values.
\<close>

definition served_response ::
  "warehouse \<Rightarrow> string \<Rightarrow> string \<Rightarrow> dim_product \<Rightarrow> dim_location \<Rightarrow> ml_model \<Rightarrow> date \<Rightarrow> date \<Rightarrow> bool
     \<Rightarrow> forecast_response" where
  "served_response wh sku region product location model start_date end_date include_actuals =
     (let start_key = date_key_of start_date;
          end_key = date_key_of end_date;
          forecast_dates =
            store_forecasts
              (select_forecasts wh (p_product_id product) (loc_location_id location)
                 (m_version model) start_key end_key);
          forecast_dates' =
            (if include_actuals
             then store_actuals
                    (select_actuals wh (p_product_id product) (loc_location_id location)
                       start_key end_key)
                    forecast_dates
             else forecast_dates)
      in \<lparr>fr_sku = sku, fr_region = region, fr_model_version = m_version model,
          fr_model_name = m_model_name model, fr_metrics = m_metrics_json model,
          fr_forecasts = map snd forecast_dates'\<rparr>)"

text \<open>
  \<open>get_forecast\<close>: the result and the Redis entries after the request. \<open>today\<close> is
  \<open>date.today()\<close>. The endpoint writes nothing to the database.
\<close>

definition get_forecast ::
  "warehouse \<Rightarrow> redis \<Rightarrow> date \<Rightarrow> string \<Rightarrow> string \<Rightarrow> date option \<Rightarrow> date option \<Rightarrow> bool
     \<Rightarrow> (error + forecast_response) \<times> redis" where
  "get_forecast wh r today sku region start_date_arg end_date_arg include_actuals =
     (let end_date = (case end_date_arg of None \<Rightarrow> today + 14 | Some d \<Rightarrow> d);
          start_date = (case start_date_arg of None \<Rightarrow> today - 30 | Some d \<Rightarrow> d);
          cache_key = forecast_cache_key sku region (isoformat end_date)
      in case cache_get r cache_key of
           Some cached \<Rightarrow> (Inr cached, r)
         | None \<Rightarrow>
             (case scalar_one_or_none (filter (\<lambda>p. p_sku p = sku) (dim_products wh)) of
                Inl e \<Rightarrow> (Inl e, r)
              | Inr None \<Rightarrow>
                  (Inl (HTTPException HTTP_404_NOT_FOUND
                          (''Product with SKU '' @ [CHR 0x27] @ sku @ [CHR 0x27] @ '' not found'')), r)
              | Inr (Some product) \<Rightarrow>
                  (case first_row (filter (\<lambda>l. loc_region l = region) (dim_locations wh)) of
                     None \<Rightarrow>
                       (Inl (HTTPException HTTP_404_NOT_FOUND
                               (''No locations found in region '' @ [CHR 0x27] @ region @ [CHR 0x27])), r)
                   | Some location \<Rightarrow>
                       (case first_row (select_assignment wh (p_product_id product)
                                          (loc_location_id location)) of
                          None \<Rightarrow> (Inr (no_model_response sku region), r)
                        | Some (assignment, model) \<Rightarrow>
                            let response = served_response wh sku region product location model
                                             start_date end_date include_actuals
                            in (Inr response, cache_set r cache_key response)))))"

text \<open>
  For the examples: a warehouse with one product, one location in region \<open>EU\<close>, the pair
  assigned to version \<open>v1\<close> (whose status is the parameter), forecasts of \<open>v1\<close> for
  2024-01-01 and 2024-01-02 and a sale on 2024-01-01; the same warehouse with the
  assignment removed; the points and responses of the requests made on them.
\<close>

definition demo_warehouse :: "model_status \<Rightarrow> warehouse" where
  "demo_warehouse st =
     \<lparr>dim_products = [\<lparr>p_product_id = 1, p_sku = ''SKU-1''\<rparr>],
      dim_locations = [\<lparr>loc_location_id = 1, loc_region = ''EU''\<rparr>],
      dim_dates = [\<lparr>dd_date_key = 20240101, dd_date = 738886\<rparr>,
                   \<lparr>dd_date_key = 20240102, dd_date = 738887\<rparr>],
      model_assignments = [\<lparr>a_product_id = 1, a_location_id = 1, a_model_id = 1\<rparr>],
      registered_models =
        [\<lparr>m_id = 1, m_model_name = ''demand_forecast'', m_version = ''v1'', m_metrics_json = ''{}'',
          m_status = st, m_promoted_at = Some 10, m_promoted_by = Some ''ops@example.com''\<rparr>],
      fact_forecasts =
        [\<lparr>ff_date_key = 20240101, ff_product_id = 1, ff_location_id = 1, ff_forecast_units = 10,
          ff_prediction_interval_low = 8, ff_prediction_interval_high = 12, ff_model_version = ''v1''\<rparr>,
         \<lparr>ff_date_key = 20240102, ff_product_id = 1, ff_location_id = 1, ff_forecast_units = 11,
          ff_prediction_interval_low = 9, ff_prediction_interval_high = 13, ff_model_version = ''v1''\<rparr>],
      fact_sales_rows =
        [\<lparr>fs_date_key = 20240101, fs_product_id = 1, fs_location_id = 1, fs_units_sold = 9\<rparr>]\<rparr>"

definition unassigned_warehouse :: warehouse where
  "unassigned_warehouse = (demo_warehouse Prod)\<lparr>model_assignments := []\<rparr>"

definition demo_point_1 :: forecast_point where
  "demo_point_1 = \<lparr>fp_date = ''2024-01-01'', fp_forecast_units = 10, fp_interval_low = 8,
     fp_interval_high = 12, fp_actual_units = Some 9\<rparr>"

definition demo_point_2 :: forecast_point where
  "demo_point_2 = \<lparr>fp_date = ''2024-01-02'', fp_forecast_units = 11, fp_interval_low = 9,
     fp_interval_high = 13, fp_actual_units = None\<rparr>"

definition demo_forecast_response :: "forecast_point list \<Rightarrow> forecast_response" where
  "demo_forecast_response pts =
     \<lparr>fr_sku = ''SKU-1'', fr_region = ''EU'', fr_model_version = ''v1'',
      fr_model_name = ''demand_forecast'', fr_metrics = ''{}'', fr_forecasts = pts\<rparr>"

definition demo_key :: string where
  "demo_key = ''forecast:SKU-1:EU:2024-01-02''"

definition demo_product :: dim_product where
  "demo_product = \<lparr>p_product_id = 1, p_sku = ''SKU-1''\<rparr>"

definition demo_location :: dim_location where
  "demo_location = \<lparr>loc_location_id = 1, loc_region = ''EU''\<rparr>"

definition demo_assignment :: ml_model_assignment where
  "demo_assignment = \<lparr>a_product_id = 1, a_location_id = 1, a_model_id = 1\<rparr>"

definition demo_model :: "model_status \<Rightarrow> ml_model" where
  "demo_model st =
     \<lparr>m_id = 1, m_model_name = ''demand_forecast'', m_version = ''v1'', m_metrics_json = ''{}'',
      m_status = st, m_promoted_at = Some 10, m_promoted_by = Some ''ops@example.com''\<rparr>"

section \<open>Feature engineering and the holdout split (jobs/ml/features.py)\<close>

text \<open>
  An observation is a row of the raw frame: \<open>date\<close>, \<open>product_id\<close>, \<open>location_id\<close>,
  \<open>quantity\<close>. After \<open>pd.to_datetime\<close> the date is a timestamp at midnight, here the
  ordinal of its day. A cell of a float column is a number, an infinity or \<open>NaN\<close> (the null
  of \<open>dropna\<close> and \<open>fillna\<close>); numbers are reals, not rounded.
\<close>

record observation =
  o_date :: date
  o_product_id :: string
  o_location_id :: string
  o_quantity :: real

datatype cell = NaN | Num real | PosInf | NegInf

type_synonym series = "cell list"

text \<open>Elementwise arithmetic of float columns: \<open>a - b\<close>, \<open>a + 1\<close> and \<open>a / b\<close>.\<close>

fun cell_sub :: "cell \<Rightarrow> cell \<Rightarrow> cell" where
  "cell_sub (Num a) (Num b) = Num (a - b)"
| "cell_sub NaN _ = NaN"
| "cell_sub _ NaN = NaN"
| "cell_sub PosInf PosInf = NaN"
| "cell_sub NegInf NegInf = NaN"
| "cell_sub PosInf _ = PosInf"
| "cell_sub NegInf _ = NegInf"
| "cell_sub (Num a) PosInf = NegInf"
| "cell_sub (Num a) NegInf = PosInf"

fun cell_add1 :: "cell \<Rightarrow> cell" where
  "cell_add1 (Num a) = Num (a + 1)"
| "cell_add1 c = c"

fun cell_div :: "cell \<Rightarrow> cell \<Rightarrow> cell" where
  "cell_div (Num a) (Num b) =
     (if b = 0 then (if a = 0 then NaN else if 0 < a then PosInf else NegInf) else Num (a / b))"
| "cell_div NaN _ = NaN"
| "cell_div _ NaN = NaN"
| "cell_div (Num a) PosInf = Num 0"
| "cell_div (Num a) NegInf = Num 0"
| "cell_div PosInf (Num b) = (if 0 \<le> b then PosInf else NegInf)"
| "cell_div NegInf (Num b) = (if 0 \<le> b then NegInf else PosInf)"
| "cell_div _ _ = NaN"

text \<open>
  \<open>Series.shift(k)\<close> for \<open>k \<ge> 0\<close>: every value moves \<open>k\<close> positions down, the first \<open>k\<close>
  positions become \<open>NaN\<close>, the length stays.
\<close>

definition shift :: "nat \<Rightarrow> series \<Rightarrow> series" where
  "shift k xs = take (length xs) (replicate k NaN @ xs)"

text \<open>
  \<open>Series.rolling(window, min_periods).agg()\<close>: at position \<open>i\<close> the window holds the
  positions \<open>i - window + 1\<close> to \<open>i\<close>; its non-null numbers are aggregated when there are at
  least \<open>min_periods\<close> of them, else the result is \<open>NaN\<close>. The columns rolled here hold
  numbers and \<open>NaN\<close> only.
\<close>

fun numbers :: "series \<Rightarrow> real list" where
  "numbers [] = []"
| "numbers (Num a # cs) = a # numbers cs"
| "numbers (c # cs) = numbers cs"

definition window_values :: "nat \<Rightarrow> series \<Rightarrow> nat \<Rightarrow> real list" where
  "window_values window xs i = numbers (drop (Suc i - window) (take (Suc i) xs))"

definition rolling :: "nat \<Rightarrow> nat \<Rightarrow> (real list \<Rightarrow> cell) \<Rightarrow> series \<Rightarrow> series" where
  "rolling window min_periods agg xs =
     map (\<lambda>i. let vs = window_values window xs i
               in if min_periods \<le> length vs then agg vs else NaN) [0..<length xs]"

definition mean :: "real list \<Rightarrow> cell" where
  "mean vs = Num (sum_list vs / real (length vs))"

text \<open>The sample standard deviation (\<open>ddof=1\<close>): \<open>NaN\<close> for fewer than two values.\<close>

definition std :: "real list \<Rightarrow> cell" where
  "std vs =
     (if length vs < 2 then NaN
      else Num (sqrt (sum_list (map (\<lambda>v. (v - sum_list vs / real (length vs))\<^sup>2) vs)
                       / real (length vs - 1))))"

definition min_agg :: "real list \<Rightarrow> cell" where
  "min_agg vs = Num (Min (set vs))"

definition max_agg :: "real list \<Rightarrow> cell" where
  "max_agg vs = Num (Max (set vs))"

text \<open>
  \<open>df.groupby(["product_id", "location_id"])["quantity"].transform(f)\<close>, and for
  \<open>f = shift k\<close> also \<open>.shift(k)\<close> of the group-by: \<open>f\<close> is applied to the quantities of each
  group, in frame order, and every row receives the value at its position in its group.
\<close>

definition group_key :: "observation \<Rightarrow> string \<times> string" where
  "group_key r = (o_product_id r, o_location_id r)"

definition group_series :: "observation list \<Rightarrow> string \<times> string \<Rightarrow> series" where
  "group_series df g = map (\<lambda>r. Num (o_quantity r)) (filter (\<lambda>r. group_key r = g) df)"

definition group_index :: "observation list \<Rightarrow> nat \<Rightarrow> nat" where
  "group_index df p = length (filter (\<lambda>r. group_key r = group_key (df ! p)) (take p df))"

definition groupby_transform :: "(series \<Rightarrow> series) \<Rightarrow> observation list \<Rightarrow> series" where
  "groupby_transform f df =
     map (\<lambda>p. f (group_series df (group_key (df ! p))) ! group_index df p) [0..<length df]"

text \<open>
  The columns that \<open>add_lag_features\<close>, \<open>add_rolling_features\<close> and \<open>add_trend_features\<close> add
  to the frame, by name, in the order in which they are created.
\<close>

definition add_lag_features :: "observation list \<Rightarrow> (string \<times> series) list" where
  "add_lag_features df =
     map (\<lambda>(name, lag). (name, groupby_transform (shift lag) df))
       [(''qty_lag_1d'', 1), (''qty_lag_7d'', 7), (''qty_lag_14d'', 14), (''qty_lag_28d'', 28),
        (''qty_same_dow_1w'', 7), (''qty_same_dow_2w'', 14), (''qty_same_dow_4w'', 28)]"

definition fillna0 :: "series \<Rightarrow> series" where
  "fillna0 xs = map (\<lambda>c. if c = NaN then Num 0 else c) xs"

definition rolling_features_of :: "string \<times> nat \<Rightarrow> observation list \<Rightarrow> (string \<times> series) list" where
  "rolling_features_of w df =
     (case w of (suffix, window) \<Rightarrow>
        [(''qty_rolling_mean_'' @ suffix,
            groupby_transform (\<lambda>x. rolling window 1 mean (shift 1 x)) df),
         (''qty_rolling_std_'' @ suffix,
            fillna0 (groupby_transform (\<lambda>x. rolling window 1 std (shift 1 x)) df)),
         (''qty_rolling_min_'' @ suffix,
            groupby_transform (\<lambda>x. rolling window 1 min_agg (shift 1 x)) df),
         (''qty_rolling_max_'' @ suffix,
            groupby_transform (\<lambda>x. rolling window 1 max_agg (shift 1 x)) df)])"

definition add_rolling_features :: "observation list \<Rightarrow> (string \<times> series) list" where
  "add_rolling_features df =
     concat (map (\<lambda>w. rolling_features_of w df) [(''7d'', 7), (''14d'', 14), (''28d'', 28)])"

definition column :: "(string \<times> series) list \<Rightarrow> string \<Rightarrow> series" where
  "column cols name = (case map_of cols name of Some xs \<Rightarrow> xs | None \<Rightarrow> [])"

definition add_trend_features ::
  "observation list \<Rightarrow> (string \<times> series) list \<Rightarrow> (string \<times> series) list" where
  "add_trend_features df rolling_cols =
     [(''qty_wow_change'',
         groupby_transform (\<lambda>x. map2 cell_sub (shift 1 x) (shift 8 x)) df),
      (''qty_wow_pct_change'',
         groupby_transform
           (\<lambda>x. map2 cell_div (map2 cell_sub (shift 1 x) (shift 8 x)) (map cell_add1 (shift 8 x))) df),
      (''short_long_ratio'',
         map2 cell_div (column rolling_cols ''qty_rolling_mean_7d'')
           (map cell_add1 (column rolling_cols ''qty_rolling_mean_28d'')))]"

text \<open>
  A row of the engineered frame: the observation, the calendar and holiday columns of
  \<open>add_date_features\<close> and \<open>add_holiday_features\<close>, and the lag, rolling and trend columns by
  name. The calendar and holiday columns are computed from the row's date alone by pandas'
  \<open>dt\<close> accessors and the \<open>holidays\<close> package; they are the parameter \<open>calendar\<close>, and a
  date never makes them null.
\<close>

record 'c feature_row =
  r_obs :: observation
  r_calendar :: 'c
  r_features :: "(string \<times> cell) list"

definition row_at :: "(date \<Rightarrow> 'c) \<Rightarrow> observation list \<Rightarrow> (string \<times> series) list \<Rightarrow> nat \<Rightarrow> 'c feature_row" where
  "row_at calendar df cols p =
     \<lparr>r_obs = df ! p, r_calendar = calendar (o_date (df ! p)),
      r_features = map (\<lambda>(name, xs). (name, xs ! p)) cols\<rparr>"

text \<open>\<open>df.dropna()\<close>: the rows without a null in any column.\<close>

definition has_null :: "'c feature_row \<Rightarrow> bool" where
  "has_null r = (NaN \<in> set (map snd (r_features r)))"

definition dropna :: "'c feature_row list \<Rightarrow> 'c feature_row list" where
  "dropna rows = filter (\<lambda>r. \<not> has_null r) rows"

definition engineer_features :: "(date \<Rightarrow> 'c) \<Rightarrow> observation list \<Rightarrow> 'c feature_row list" where
  "engineer_features calendar df =
     (let lag_cols = add_lag_features df;
          rolling_cols = add_rolling_features df;
          trend_cols = add_trend_features df rolling_cols;
          cols = lag_cols @ rolling_cols @ trend_cols
      in dropna (map (row_at calendar df cols) [0..<length df]))"

text \<open>
  \<open>prepare_train_test_split\<close>. The frame is sorted by date (rows of one date in an order
  pandas does not promise; here they keep their order); the cutoff is
  \<open>df["date"].max() - timedelta(days=test_days)\<close>, which is the parameter \<open>minus_days\<close>:
  \<open>None\<close> where the timestamp arithmetic of pandas raises (a cutoff out of the range of
  timestamps). On the empty frame the maximum is \<open>NaT\<close>, every comparison with it is false and
  both parts are empty. The result is \<open>X_train, X_test, y_train, y_test\<close>; the function has
  no other way to fail.
\<close>

datatype split_error = OutOfBoundsDatetime

definition x_columns :: "'c feature_row \<Rightarrow> 'c \<times> (string \<times> cell) list" where
  "x_columns r = (r_calendar r, r_features r)"

definition row_date :: "'c feature_row \<Rightarrow> date" where
  "row_date r = o_date (r_obs r)"

definition row_quantity :: "'c feature_row \<Rightarrow> real" where
  "row_quantity r = o_quantity (r_obs r)"

definition prepare_train_test_split ::
  "(date \<Rightarrow> int \<Rightarrow> date option) \<Rightarrow> 'c feature_row list \<Rightarrow> int
     \<Rightarrow> split_error +
        ('c \<times> (string \<times> cell) list) list \<times> ('c \<times> (string \<times> cell) list) list \<times> real list \<times> real list" where
  "prepare_train_test_split minus_days df test_days =
     (let sorted_df = sort_key row_date df
      in if sorted_df = [] then Inr ([], [], [], [])
         else case minus_days (Max (set (map row_date sorted_df))) test_days of
                None \<Rightarrow> Inl OutOfBoundsDatetime
              | Some cutoff_date \<Rightarrow>
                  let train_df = filter (\<lambda>r. row_date r \<le> cutoff_date) sorted_df;
                      test_df = filter (\<lambda>r. cutoff_date < row_date r) sorted_df
                  in Inr (map x_columns train_df, map x_columns test_df,
                          map row_quantity train_df, map row_quantity test_df))"

text \<open>
  For the examples: timestamp arithmetic on days well inside the range of timestamps, a
  calendar block left empty, and the scenario of one group observed on 40 consecutive days
  from 2024-01-01 (ordinal 738886) with quantities 100, 105, ...
\<close>

definition days_before :: "date \<Rightarrow> int \<Rightarrow> date option" where
  "days_before d k = Some (d - k)"

definition no_calendar :: "date \<Rightarrow> unit" where
  "no_calendar d = ()"

definition scenario_observation :: "nat \<Rightarrow> observation" where
  "scenario_observation i =
     \<lparr>o_date = 738886 + int i, o_product_id = ''P1'', o_location_id = ''L1'',
      o_quantity = 100 + 5 * real i\<rparr>"

definition scenario :: "observation list" where
  "scenario = map scenario_observation [0..<40]"

section \<open>Properties of the model registry\<close>

lemma select_write_promoted:
  "select_model (write_promoted n v now email ms) n v =
   map (\<lambda>m. m\<lparr>m_status := Prod, m_promoted_at := Some now, m_promoted_by := Some email\<rparr>)
     (select_model ms n v)"
  by (induction ms) (simp_all add: select_model_def write_promoted_def)

lemma select_archive_prod:
  "select_model (archive_prod n' ms) n v =
   map (\<lambda>m. if m_model_name m = n' \<and> m_status m = Prod then m\<lparr>m_status := Archived\<rparr> else m)
     (select_model ms n v)"
  by (induction ms) (simp_all add: select_model_def archive_prod_def)

lemma prod_models_promoted:
  "prod_models n (write_promoted n v now email (archive_prod n ms)) =
   select_model (write_promoted n v now email (archive_prod n ms)) n v"
  by (induction ms) (simp_all add: prod_models_def select_model_def write_promoted_def archive_prod_def)

lemma promote_model_cases:
  "snd (promote_model io ac db body u now ip) = db \<or>
   (\<exists>model. select_model (ml_models db) (req_model_name body) (req_version body) = [model] \<and>
      m_status model \<noteq> Prod \<and>
      ml_models (snd (promote_model io ac db body u now ip)) =
        write_promoted (req_model_name body) (req_version body) now (tp_email u)
          (archive_prod (req_model_name body) (ml_models db)))"
  by (auto simp: promote_model_def scalar_one_or_none_def Let_def
      split: list.splits option.splits sum.splits)

lemma promote_step_prod:
  "snd (promote_model io ac db \<lparr>req_model_name = n, req_version = v\<rparr> u now ip) = db \<or>
   length (prod_models n (ml_models
     (snd (promote_model io ac db \<lparr>req_model_name = n, req_version = v\<rparr> u now ip)))) = 1"
  using promote_model_cases [of io ac db "\<lparr>req_model_name = n, req_version = v\<rparr>" u now ip]
  by (auto simp: prod_models_promoted select_write_promoted select_archive_prod)

lemma promote_all_prod:
  "length (prod_models n (ml_models (promote_all io ac n db calls))) \<le> 1 \<or>
   promote_all io ac n db calls = db"
proof (induction calls arbitrary: db)
  case Nil
  show ?case by simp
next
  case (Cons c calls)
  obtain v u now ip where c: "c = (v, u, now, ip)" by (cases c) auto
  let ?db' = "snd (promote_model io ac db \<lparr>req_model_name = n, req_version = v\<rparr> u now ip)"
  from Cons.IH [of ?db'] promote_step_prod [of io ac db n v u now ip]
  show ?case unfolding c by auto
qed

lemma promote_all_append:
  "promote_all io ac n db (calls @ [(v, u, now, ip)]) =
   snd (promote_model io ac (promote_all io ac n db calls)
          \<lparr>req_model_name = n, req_version = v\<rparr> u now ip)"
  by (induction calls arbitrary: db) auto

lemma promote_model_success:
  assumes "promote_model io ac db body u now ip = (Inr resp, db')"
  shows "\<exists>model. select_model (ml_models db) (req_model_name body) (req_version body) = [model] \<and>
      m_status model \<noteq> Prod \<and>
      ml_models db' =
        write_promoted (req_model_name body) (req_version body) now (tp_email u)
          (archive_prod (req_model_name body) (ml_models db))"
  using assms
  by (auto simp: promote_model_def scalar_one_or_none_def Let_def
      split: list.splits option.splits sum.splits if_splits)

lemma promote_model_success_prod:
  assumes "promote_model io ac db \<lparr>req_model_name = n, req_version = v\<rparr> u now ip = (Inr resp, db')"
  shows "length (prod_models n (ml_models db')) = 1"
proof -
  from promote_model_success [OF assms] obtain model where
    "select_model (ml_models db) n v = [model]"
    "ml_models db' = write_promoted n v now (tp_email u) (archive_prod n (ml_models db))"
    by auto
  then show ?thesis
    by (simp add: prod_models_promoted select_write_promoted select_archive_prod)
qed

lemma select_model_single_nth:
  assumes "select_model ms n v = [model]" "i < length ms"
    "m_model_name (ms ! i) = n" "m_version (ms ! i) = v"
  shows "ms ! i = model"
proof -
  have "ms ! i \<in> set ms"
    using assms(2) by simp
  then have "ms ! i \<in> set (select_model ms n v)"
    using assms(3,4) by (simp add: select_model_def)
  then show ?thesis by (simp add: assms(1))
qed

lemma demo_promote:
  "promote_model demo_int demo_accepts demo_registry
     \<lparr>req_model_name = ''demand_forecast'', req_version = ''v2''\<rparr>
     demo_user 20 None = (Inr demo_response, demo_promoted)"
  by (simp add: promote_model_def demo_registry_def demo_promoted_def demo_response_def demo_user_def
      select_model_def scalar_one_or_none_def archive_prod_def write_promoted_def demo_int_def
      demo_accepts_def Let_def)

lemma demo_promote_v9:
  "promote_model demo_int demo_accepts demo_registry
     \<lparr>req_model_name = ''demand_forecast'', req_version = ''v9''\<rparr> u now ip =
       (Inl (HTTPException HTTP_404_NOT_FOUND (not_found_detail ''demand_forecast'' ''v9'')),
        demo_registry)"
  by (simp add: promote_model_def demo_registry_def select_model_def scalar_one_or_none_def)

lemma demo_promote_v1:
  "promote_model demo_int demo_accepts demo_registry
     \<lparr>req_model_name = ''demand_forecast'', req_version = ''v1''\<rparr> u now ip =
       (Inl (HTTPException HTTP_400_BAD_REQUEST ''Model is already in prod status''), demo_registry)"
  by (simp add: promote_model_def demo_registry_def select_model_def scalar_one_or_none_def)

lemma demo_failing_calls:
  "promote_all demo_int demo_accepts ''demand_forecast'' demo_registry
     [(''v9'', demo_user, 18, None), (''v1'', demo_user, 19, None)] = demo_registry"
  by (simp add: demo_promote_v9 demo_promote_v1)

text \<open>
  Claim C1, as stated, fails: in a registry where \<open>v1\<close> and \<open>v2\<close> of one name are both
  \<open>prod\<close>, promoting \<open>v1\<close> (refused with 400) and then \<open>v9\<close> (refused with 404) leaves
  two \<open>prod\<close> models of the name.
\<close>

theorem promote_two_prod_counterexample:
  "length (prod_models ''demand_forecast''
     (ml_models (promote_all demo_int demo_accepts ''demand_forecast'' two_prod_registry
        [(''v1'', demo_user, 20, None), (''v9'', demo_user, 21, None)]))) = 2"
  by (simp add: promote_model_def two_prod_registry_def select_model_def scalar_one_or_none_def
      prod_models_def)

text \<open>
  Claim C1, amended. A sequence of promotions of one model name, applied one after the other to
  a registry with at most one \<open>prod\<close> model of that name, leaves at most one. From any
  registry, such a sequence either leaves the registry as it was (no request succeeded) or
  leaves at most one \<open>prod\<close> model of the name; when the last request of a sequence succeeds,
  the sequence ends in the database of that request, with exactly one \<open>prod\<close> model of the
  name. A successful promotion keeps the rows in place, turns every row of the name that was
  \<open>prod\<close> into \<open>archived\<close>, sets the target row to \<open>prod\<close> with \<open>promoted_at\<close> and
  \<open>promoted_by\<close> stamped, and leaves every other row as it was.
\<close>

theorem promote_model_single_prod:
  "(length (prod_models n (ml_models db)) \<le> 1 \<longrightarrow>
      length (prod_models n (ml_models (promote_all io ac n db calls))) \<le> 1) \<and>
   (length (prod_models n (ml_models (promote_all io ac n db calls))) \<le> 1 \<or>
      promote_all io ac n db calls = db) \<and>
   (promote_model io ac (promote_all io ac n db calls) \<lparr>req_model_name = n, req_version = v\<rparr>
        u now ip = (Inr resp', db'') \<longrightarrow>
      promote_all io ac n db (calls @ [(v, u, now, ip)]) = db'' \<and>
      length (prod_models n (ml_models db'')) = 1) \<and>
   (promote_model io ac db \<lparr>req_model_name = n, req_version = v\<rparr> u now ip = (Inr resp, db') \<longrightarrow>
      length (ml_models db') = length (ml_models db) \<and>
      length (prod_models n (ml_models db')) = 1 \<and>
      (\<forall>i < length (ml_models db).
         (m_model_name (ml_models db ! i) = n \<and> m_version (ml_models db ! i) = v \<longrightarrow>
            ml_models db' ! i = (ml_models db ! i)\<lparr>m_status := Prod, m_promoted_at := Some now,
               m_promoted_by := Some (tp_email u)\<rparr>) \<and>
         (m_model_name (ml_models db ! i) = n \<and> m_status (ml_models db ! i) = Prod \<longrightarrow>
            ml_models db' ! i = (ml_models db ! i)\<lparr>m_status := Archived\<rparr>) \<and>
         (\<not> (m_model_name (ml_models db ! i) = n \<and> m_version (ml_models db ! i) = v) \<and>
          \<not> (m_model_name (ml_models db ! i) = n \<and> m_status (ml_models db ! i) = Prod) \<longrightarrow>
            ml_models db' ! i = ml_models db ! i)))"
proof (intro conjI impI)
  show seq: "length (prod_models n (ml_models (promote_all io ac n db calls))) \<le> 1 \<or>
      promote_all io ac n db calls = db"
    by (rule promote_all_prod)
  show "length (prod_models n (ml_models (promote_all io ac n db calls))) \<le> 1"
    if "length (prod_models n (ml_models db)) \<le> 1"
    using seq that by auto
next
  assume last: "promote_model io ac (promote_all io ac n db calls)
      \<lparr>req_model_name = n, req_version = v\<rparr> u now ip = (Inr resp', db'')"
  show "promote_all io ac n db (calls @ [(v, u, now, ip)]) = db''"
    by (simp add: promote_all_append last)
  show "length (prod_models n (ml_models db'')) = 1"
    by (rule promote_model_success_prod [OF last])
next
  assume ok: "promote_model io ac db \<lparr>req_model_name = n, req_version = v\<rparr> u now ip = (Inr resp, db')"
  from promote_model_success [OF ok] obtain model where
    sel: "select_model (ml_models db) n v = [model]" and np: "m_status model \<noteq> Prod" and
    ms': "ml_models db' = write_promoted n v now (tp_email u) (archive_prod n (ml_models db))"
    by auto
  show "length (ml_models db') = length (ml_models db)"
    by (simp add: ms' write_promoted_def archive_prod_def)
  show "length (prod_models n (ml_models db')) = 1"
    by (rule promote_model_success_prod [OF ok])
  show "\<forall>i < length (ml_models db).
         (m_model_name (ml_models db ! i) = n \<and> m_version (ml_models db ! i) = v \<longrightarrow>
            ml_models db' ! i = (ml_models db ! i)\<lparr>m_status := Prod, m_promoted_at := Some now,
               m_promoted_by := Some (tp_email u)\<rparr>) \<and>
         (m_model_name (ml_models db ! i) = n \<and> m_status (ml_models db ! i) = Prod \<longrightarrow>
            ml_models db' ! i = (ml_models db ! i)\<lparr>m_status := Archived\<rparr>) \<and>
         (\<not> (m_model_name (ml_models db ! i) = n \<and> m_version (ml_models db ! i) = v) \<and>
          \<not> (m_model_name (ml_models db ! i) = n \<and> m_status (ml_models db ! i) = Prod) \<longrightarrow>
            ml_models db' ! i = ml_models db ! i)"
  proof (intro allI impI)
    fix i assume i: "i < length (ml_models db)"
    have tgt: "ml_models db ! i = model"
      if "m_model_name (ml_models db ! i) = n" "m_version (ml_models db ! i) = v"
      using select_model_single_nth [OF sel i that] .
    show "(m_model_name (ml_models db ! i) = n \<and> m_version (ml_models db ! i) = v \<longrightarrow>
            ml_models db' ! i = (ml_models db ! i)\<lparr>m_status := Prod, m_promoted_at := Some now,
               m_promoted_by := Some (tp_email u)\<rparr>) \<and>
         (m_model_name (ml_models db ! i) = n \<and> m_status (ml_models db ! i) = Prod \<longrightarrow>
            ml_models db' ! i = (ml_models db ! i)\<lparr>m_status := Archived\<rparr>) \<and>
         (\<not> (m_model_name (ml_models db ! i) = n \<and> m_version (ml_models db ! i) = v) \<and>
          \<not> (m_model_name (ml_models db ! i) = n \<and> m_status (ml_models db ! i) = Prod) \<longrightarrow>
            ml_models db' ! i = ml_models db ! i)"
      using i tgt np by (auto simp: ms' write_promoted_def archive_prod_def)
  qed
qed

theorem promote_model_single_prod_witness:
  "length (prod_models ''demand_forecast'' (ml_models demo_registry)) \<le> 1 \<and>
   promote_model demo_int demo_accepts
     (promote_all demo_int demo_accepts ''demand_forecast'' demo_registry
        [(''v9'', demo_user, 18, None), (''v1'', demo_user, 19, None)])
     \<lparr>req_model_name = ''demand_forecast'', req_version = ''v2''\<rparr>
     demo_user 20 None = (Inr demo_response, demo_promoted) \<and>
   promote_model demo_int demo_accepts demo_registry
     \<lparr>req_model_name = ''demand_forecast'', req_version = ''v2''\<rparr>
     demo_user 20 None = (Inr demo_response, demo_promoted) \<and>
   length (prod_models ''demand_forecast''
     (ml_models (promote_all demo_int demo_accepts ''demand_forecast'' demo_registry
        [(''v9'', demo_user, 18, None), (''v1'', demo_user, 19, None)]))) \<le> 1 \<and>
   promote_all demo_int demo_accepts ''demand_forecast'' demo_registry
     ([(''v9'', demo_user, 18, None), (''v1'', demo_user, 19, None)] @ [(''v2'', demo_user, 20, None)]) =
     demo_promoted \<and>
   length (prod_models ''demand_forecast'' (ml_models demo_promoted)) = 1 \<and>
   ml_models demo_promoted ! 0 = (ml_models demo_registry ! 0)\<lparr>m_status := Archived\<rparr> \<and>
   ml_models demo_promoted ! 1 = (ml_models demo_registry ! 1)\<lparr>m_status := Prod,
      m_promoted_at := Some 20, m_promoted_by := Some ''admin@example.com''\<rparr>"
proof -
  have h1: "length (prod_models ''demand_forecast'' (ml_models demo_registry)) \<le> 1"
    by (simp add: prod_models_def demo_registry_def)
  have h2: "promote_model demo_int demo_accepts
     (promote_all demo_int demo_accepts ''demand_forecast'' demo_registry
        [(''v9'', demo_user, 18, None), (''v1'', demo_user, 19, None)])
     \<lparr>req_model_name = ''demand_forecast'', req_version = ''v2''\<rparr>
     demo_user 20 None = (Inr demo_response, demo_promoted)"
    by (simp only: demo_failing_calls demo_promote)
  note h3 = demo_promote
  note inst = promote_model_single_prod [of "''demand_forecast''" demo_registry demo_int demo_accepts
      "[(''v9'', demo_user, 18, None), (''v1'', demo_user, 19, None)]" "''v2''" demo_user 20 None
      demo_response demo_promoted demo_response demo_promoted]
  have a: "length (prod_models ''demand_forecast''
     (ml_models (promote_all demo_int demo_accepts ''demand_forecast'' demo_registry
        [(''v9'', demo_user, 18, None), (''v1'', demo_user, 19, None)]))) \<le> 1"
    using inst h1 by blast
  have b: "promote_all demo_int demo_accepts ''demand_forecast'' demo_registry
     ([(''v9'', demo_user, 18, None), (''v1'', demo_user, 19, None)] @ [(''v2'', demo_user, 20, None)]) =
     demo_promoted"
    and b': "length (prod_models ''demand_forecast'' (ml_models demo_promoted)) = 1"
    using inst h2 by blast+
  have c: "\<forall>i < length (ml_models demo_registry).
         (m_model_name (ml_models demo_registry ! i) = ''demand_forecast'' \<and>
          m_version (ml_models demo_registry ! i) = ''v2'' \<longrightarrow>
            ml_models demo_promoted ! i = (ml_models demo_registry ! i)\<lparr>m_status := Prod,
               m_promoted_at := Some 20, m_promoted_by := Some (tp_email demo_user)\<rparr>) \<and>
         (m_model_name (ml_models demo_registry ! i) = ''demand_forecast'' \<and>
          m_status (ml_models demo_registry ! i) = Prod \<longrightarrow>
            ml_models demo_promoted ! i = (ml_models demo_registry ! i)\<lparr>m_status := Archived\<rparr>) \<and>
         (\<not> (m_model_name (ml_models demo_registry ! i) = ''demand_forecast'' \<and>
             m_version (ml_models demo_registry ! i) = ''v2'') \<and>
          \<not> (m_model_name (ml_models demo_registry ! i) = ''demand_forecast'' \<and>
             m_status (ml_models demo_registry ! i) = Prod) \<longrightarrow>
            ml_models demo_promoted ! i = ml_models demo_registry ! i)"
    using inst h3 by blast
  have c0: "ml_models demo_promoted ! 0 = (ml_models demo_registry ! 0)\<lparr>m_status := Archived\<rparr>"
    using c [rule_format, of 0] by (simp add: demo_registry_def)
  have c1: "ml_models demo_promoted ! 1 = (ml_models demo_registry ! 1)\<lparr>m_status := Prod,
      m_promoted_at := Some 20, m_promoted_by := Some ''admin@example.com''\<rparr>"
    using c [rule_format, of 1] by (simp add: demo_registry_def demo_user_def)
  show ?thesis using h1 h2 h3 a b b' c0 c1 by blast
qed

text \<open>
  Claim C6. A promotion of a (name, version) pair that no row carries fails with the 404
  \<open>HTTPException\<close> (the spec's NotFoundError); a promotion whose target row is already
  \<open>prod\<close> fails with the 400 \<open>HTTPException\<close> (the spec's AlreadyPromotedError); both
  leave the whole database as it was. Promoting again what has just been promoted
  successfully is such a 400 failure.
\<close>

theorem promote_model_failures:
  "(select_model (ml_models db) (req_model_name body) (req_version body) = [] \<longrightarrow>
      promote_model io ac db body u now ip =
        (Inl (HTTPException HTTP_404_NOT_FOUND
               (not_found_detail (req_model_name body) (req_version body))), db)) \<and>
   (\<forall>model. select_model (ml_models db) (req_model_name body) (req_version body) = [model] \<and>
        m_status model = Prod \<longrightarrow>
      promote_model io ac db body u now ip =
        (Inl (HTTPException HTTP_400_BAD_REQUEST ''Model is already in prod status''), db)) \<and>
   (promote_model io ac db body u now ip = (Inr resp, db') \<longrightarrow>
      promote_model io' ac' db' body u' now' ip' =
        (Inl (HTTPException HTTP_400_BAD_REQUEST ''Model is already in prod status''), db'))"
proof (intro conjI impI allI)
  assume "select_model (ml_models db) (req_model_name body) (req_version body) = []"
  then show "promote_model io ac db body u now ip =
        (Inl (HTTPException HTTP_404_NOT_FOUND
               (not_found_detail (req_model_name body) (req_version body))), db)"
    by (simp add: promote_model_def scalar_one_or_none_def)
next
  fix model
  assume "select_model (ml_models db) (req_model_name body) (req_version body) = [model] \<and>
        m_status model = Prod"
  then show "promote_model io ac db body u now ip =
        (Inl (HTTPException HTTP_400_BAD_REQUEST ''Model is already in prod status''), db)"
    by (simp add: promote_model_def scalar_one_or_none_def)
next
  assume ok: "promote_model io ac db body u now ip = (Inr resp, db')"
  from promote_model_success [OF ok] obtain model where
    sel: "select_model (ml_models db) (req_model_name body) (req_version body) = [model]" and
    ms': "ml_models db' = write_promoted (req_model_name body) (req_version body) now (tp_email u)
            (archive_prod (req_model_name body) (ml_models db))"
    by auto
  have "select_model (ml_models db') (req_model_name body) (req_version body) =
      [(if m_model_name model = req_model_name body \<and> m_status model = Prod
        then model\<lparr>m_status := Archived\<rparr> else model)
       \<lparr>m_status := Prod, m_promoted_at := Some now, m_promoted_by := Some (tp_email u)\<rparr>]"
    by (simp add: ms' select_write_promoted select_archive_prod sel)
  then show "promote_model io' ac' db' body u' now' ip' =
        (Inl (HTTPException HTTP_400_BAD_REQUEST ''Model is already in prod status''), db')"
    by (simp add: promote_model_def scalar_one_or_none_def)
qed

theorem promote_model_failures_witness:
  "select_model (ml_models demo_registry) ''demand_forecast'' ''v9'' = [] \<and>
   promote_model demo_int demo_accepts demo_registry
     \<lparr>req_model_name = ''demand_forecast'', req_version = ''v9''\<rparr> demo_user 20 None =
       (Inl (HTTPException HTTP_404_NOT_FOUND (not_found_detail ''demand_forecast'' ''v9'')),
        demo_registry) \<and>
   select_model (ml_models demo_registry) ''demand_forecast'' ''v1'' = [ml_models demo_registry ! 0] \<and>
   m_status (ml_models demo_registry ! 0) = Prod \<and>
   promote_model demo_int demo_accepts demo_registry
     \<lparr>req_model_name = ''demand_forecast'', req_version = ''v1''\<rparr> demo_user 20 None =
       (Inl (HTTPException HTTP_400_BAD_REQUEST ''Model is already in prod status''), demo_registry) \<and>
   promote_model demo_int demo_accepts demo_registry
     \<lparr>req_model_name = ''demand_forecast'', req_version = ''v2''\<rparr>
     demo_user 20 None = (Inr demo_response, demo_promoted) \<and>
   promote_model demo_int demo_accepts demo_promoted
     \<lparr>req_model_name = ''demand_forecast'', req_version = ''v2''\<rparr> demo_user 30 None =
       (Inl (HTTPException HTTP_400_BAD_REQUEST ''Model is already in prod status''), demo_promoted)"
proof -
  have h1: "select_model (ml_models demo_registry) ''demand_forecast'' ''v9'' = []"
    by (simp add: select_model_def demo_registry_def)
  have h2: "select_model (ml_models demo_registry) ''demand_forecast'' ''v1'' = [ml_models demo_registry ! 0]"
    "m_status (ml_models demo_registry ! 0) = Prod"
    by (simp_all add: select_model_def demo_registry_def)
  note h3 = demo_promote
  have a: "promote_model demo_int demo_accepts demo_registry
     \<lparr>req_model_name = ''demand_forecast'', req_version = ''v9''\<rparr> demo_user 20 None =
       (Inl (HTTPException HTTP_404_NOT_FOUND (not_found_detail ''demand_forecast'' ''v9'')),
        demo_registry)"
    using promote_model_failures [of demo_registry
        "\<lparr>req_model_name = ''demand_forecast'', req_version = ''v9''\<rparr>" demo_int demo_accepts
        demo_user 20 None] h1
    by simp
  have b: "promote_model demo_int demo_accepts demo_registry
     \<lparr>req_model_name = ''demand_forecast'', req_version = ''v1''\<rparr> demo_user 20 None =
       (Inl (HTTPException HTTP_400_BAD_REQUEST ''Model is already in prod status''), demo_registry)"
    using promote_model_failures [of demo_registry
        "\<lparr>req_model_name = ''demand_forecast'', req_version = ''v1''\<rparr>" demo_int demo_accepts
        demo_user 20 None] h2
    by simp
  have c: "promote_model demo_int demo_accepts demo_promoted
     \<lparr>req_model_name = ''demand_forecast'', req_version = ''v2''\<rparr> demo_user 30 None =
       (Inl (HTTPException HTTP_400_BAD_REQUEST ''Model is already in prod status''), demo_promoted)"
    using promote_model_failures [of demo_registry
        "\<lparr>req_model_name = ''demand_forecast'', req_version = ''v2''\<rparr>" demo_int demo_accepts
        demo_user 20 None demo_response demo_promoted demo_int demo_accepts demo_user 30 None] h3
    by simp
  show ?thesis using h1 h2 h3 a b c by blast
qed

section \<open>Properties of forecast serving\<close>

lemma first_row_simps [simp]: "first_row [] = None" "first_row (x # xs) = Some x"
  by (simp_all add: first_row_def)

lemma get_forecast_cache_hit:
  assumes "cache_get r (forecast_cache_key sku region
             (isoformat (case e of None \<Rightarrow> today + 14 | Some d \<Rightarrow> d))) = Some cached"
  shows "get_forecast wh r today sku region s e incl = (Inr cached, r)"
  using assms by (simp add: get_forecast_def Let_def)

lemma get_forecast_unassigned:
  assumes "cache_get r (forecast_cache_key sku region
             (isoformat (case e of None \<Rightarrow> today + 14 | Some d \<Rightarrow> d))) = None"
    and "filter (\<lambda>p. p_sku p = sku) (dim_products wh) = [product]"
    and "first_row (filter (\<lambda>l. loc_region l = region) (dim_locations wh)) = Some location"
    and "select_assignment wh (p_product_id product) (loc_location_id location) = []"
  shows "get_forecast wh r today sku region s e incl = (Inr (no_model_response sku region), r)"
  using assms by (simp add: get_forecast_def Let_def scalar_one_or_none_def)

lemma get_forecast_assigned:
  assumes "cache_get r (forecast_cache_key sku region
             (isoformat (case e of None \<Rightarrow> today + 14 | Some d \<Rightarrow> d))) = None"
    and "filter (\<lambda>p. p_sku p = sku) (dim_products wh) = [product]"
    and "first_row (filter (\<lambda>l. loc_region l = region) (dim_locations wh)) = Some location"
    and "select_assignment wh (p_product_id product) (loc_location_id location) = (a, model) # rest"
  shows "get_forecast wh r today sku region s e incl =
     (Inr (served_response wh sku region product location model
             (case s of None \<Rightarrow> today - 30 | Some d \<Rightarrow> d)
             (case e of None \<Rightarrow> today + 14 | Some d \<Rightarrow> d) incl),
      cache_set r (forecast_cache_key sku region
             (isoformat (case e of None \<Rightarrow> today + 14 | Some d \<Rightarrow> d)))
        (served_response wh sku region product location model
             (case s of None \<Rightarrow> today - 30 | Some d \<Rightarrow> d)
             (case e of None \<Rightarrow> today + 14 | Some d \<Rightarrow> d) incl))"
  using assms by (simp add: get_forecast_def Let_def scalar_one_or_none_def)


lemma select_assignment_none:
  assumes "\<forall>a \<in> set (model_assignments wh). \<forall>m \<in> set (registered_models wh).
     a_product_id a = pid \<and> a_location_id a = lid \<and> a_model_id a = m_id m \<longrightarrow> m_status m \<noteq> Prod"
  shows "select_assignment wh pid lid = []"
  using assms by (auto simp: select_assignment_def filter_empty_conv)




lemma forecast_point_of_actual [simp]:
  "(forecast_point_of row)\<lparr>fp_actual_units := None\<rparr> = forecast_point_of row"
  by (cases row) (simp add: forecast_point_of_def)




lemma civil_demo:
  "civil 738886 = (2024, 1, 1)" "civil 738887 = (2024, 1, 2)"
  by code_simp+

lemma isoformat_demo:
  "isoformat 738886 = ''2024-01-01''" "isoformat 738887 = ''2024-01-02''"
  by (simp_all add: isoformat_def civil_demo pad2_def pad4_def digit_char_def)

lemma date_key_demo:
  "date_key_of 738886 = 20240101" "date_key_of 738887 = 20240102"
  by (simp_all add: date_key_of_def civil_demo)

lemma demo_products:
  "filter (\<lambda>p. p_sku p = ''SKU-1'') (dim_products (demo_warehouse st)) = [demo_product]"
  "filter (\<lambda>p. p_sku p = ''SKU-1'') (dim_products unassigned_warehouse) = [demo_product]"
  by (simp_all add: demo_warehouse_def unassigned_warehouse_def demo_product_def)

lemma demo_locations:
  "first_row (filter (\<lambda>l. loc_region l = ''EU'') (dim_locations (demo_warehouse st))) =
    Some demo_location"
  "first_row (filter (\<lambda>l. loc_region l = ''EU'') (dim_locations unassigned_warehouse)) =
    Some demo_location"
  by (simp_all add: demo_warehouse_def unassigned_warehouse_def demo_location_def)

lemma demo_cache_key: "forecast_cache_key ''SKU-1'' ''EU'' (isoformat 738887) = demo_key"
  by (simp add: forecast_cache_key_def isoformat_demo demo_key_def)

lemma demo_cache_miss: "cache_get (Some []) k = None"
  by (simp add: cache_get_def)

lemma demo_select_assignment_prod:
  "select_assignment (demo_warehouse Prod) (p_product_id demo_product) (loc_location_id demo_location) =
     (demo_assignment, demo_model Prod) # []"
  by (simp add: select_assignment_def demo_warehouse_def demo_product_def demo_location_def
      demo_assignment_def demo_model_def)


lemma demo_select_forecasts_1:
  "select_forecasts (demo_warehouse Prod) 1 1 ''v1'' 20240101 20240102 =
     [(\<lparr>dd_date_key = 20240101, dd_date = 738886\<rparr>,
       \<lparr>ff_date_key = 20240101, ff_product_id = 1, ff_location_id = 1, ff_forecast_units = 10,
          ff_prediction_interval_low = 8, ff_prediction_interval_high = 12, ff_model_version = ''v1''\<rparr>),
      (\<lparr>dd_date_key = 20240102, dd_date = 738887\<rparr>,
       \<lparr>ff_date_key = 20240102, ff_product_id = 1, ff_location_id = 1, ff_forecast_units = 11,
          ff_prediction_interval_low = 9, ff_prediction_interval_high = 13, ff_model_version = ''v1''\<rparr>)]"
  by (simp add: select_forecasts_def demo_warehouse_def)


lemma demo_select_actuals_1:
  "select_actuals (demo_warehouse Prod) 1 1 20240101 20240102 =
     [(\<lparr>dd_date_key = 20240101, dd_date = 738886\<rparr>,
       \<lparr>fs_date_key = 20240101, fs_product_id = 1, fs_location_id = 1, fs_units_sold = 9\<rparr>)]"
  by (simp add: select_actuals_def demo_warehouse_def)


lemma demo_served_from_1:
  "served_response (demo_warehouse Prod) ''SKU-1'' ''EU'' demo_product demo_location (demo_model Prod)
     738886 738887 True = demo_forecast_response [demo_point_1, demo_point_2]"
  by (simp add: served_response_def demo_product_def demo_location_def demo_model_def
      date_key_demo demo_select_forecasts_1 demo_select_actuals_1
      store_forecasts_def store_actuals_def forecast_point_of_def isoformat_demo
      demo_forecast_response_def demo_point_1_def demo_point_2_def)


lemma demo_get_forecast_from_1:
  "get_forecast (demo_warehouse Prod) (Some []) 738886 ''SKU-1'' ''EU'' (Some 738886) (Some 738887) True =
     (Inr (demo_forecast_response [demo_point_1, demo_point_2]),
      Some [(demo_key, demo_forecast_response [demo_point_1, demo_point_2])])"
  unfolding get_forecast_assigned [OF demo_cache_miss demo_products(1) demo_locations(1)
      demo_select_assignment_prod]
  by (simp add: demo_served_from_1 demo_cache_key cache_set_def)


lemma demo_cache_live:
  "cache_get (Some [(demo_key, demo_forecast_response [demo_point_1, demo_point_2])])
     (forecast_cache_key ''SKU-1'' ''EU''
        (isoformat (case Some 738887 of None \<Rightarrow> today + 14 | Some d \<Rightarrow> d))) =
   Some (demo_forecast_response [demo_point_1, demo_point_2])"
  by (simp add: demo_cache_key cache_get_def)




text \<open>
  Claim C7, as stated, fails: after a request has cached the response of the assigned pair, the
  assignment is removed; the same request, made while the cached entry is live, still returns
  the two forecast rows although the pair has no assignment.
\<close>

theorem get_forecast_stale_cache_counterexample:
  "model_assignments unassigned_warehouse = [] \<and>
   get_forecast unassigned_warehouse
     (snd (get_forecast (demo_warehouse Prod) (Some []) 738886 ''SKU-1'' ''EU'' (Some 738886)
             (Some 738887) True))
     738886 ''SKU-1'' ''EU'' (Some 738886) (Some 738887) True =
     (Inr (demo_forecast_response [demo_point_1, demo_point_2]),
      Some [(demo_key, demo_forecast_response [demo_point_1, demo_point_2])]) \<and>
   fr_forecasts (demo_forecast_response [demo_point_1, demo_point_2]) = [demo_point_1, demo_point_2]"
proof -
  have "get_forecast unassigned_warehouse
      (Some [(demo_key, demo_forecast_response [demo_point_1, demo_point_2])])
      738886 ''SKU-1'' ''EU'' (Some 738886) (Some 738887) True =
     (Inr (demo_forecast_response [demo_point_1, demo_point_2]),
      Some [(demo_key, demo_forecast_response [demo_point_1, demo_point_2])])"
    by (rule get_forecast_cache_hit [OF demo_cache_live])
  then show ?thesis
    by (simp add: demo_get_forecast_from_1 unassigned_warehouse_def demo_forecast_response_def)
qed

text \<open>
  Claim C7, amended. On a request for which no cached response is live under its key, and which
  finds its product and a location of its region: when no Model Assignment exists for the
  pair, \<open>get_forecast\<close> returns the "No model assigned" response, whose list of forecast rows
  is empty; it raises nothing, consults no model and caches nothing. When a cached response is
  live under the key, that response is returned whatever the assignments are.
\<close>

theorem get_forecast_no_assignment:
  "(cache_get r (forecast_cache_key sku region
       (isoformat (case e of None \<Rightarrow> today + 14 | Some d \<Rightarrow> d))) = None \<and>
    filter (\<lambda>p. p_sku p = sku) (dim_products wh) = [product] \<and>
    first_row (filter (\<lambda>l. loc_region l = region) (dim_locations wh)) = Some location \<and>
    (\<forall>a \<in> set (model_assignments wh).
       \<not> (a_product_id a = p_product_id product \<and> a_location_id a = loc_location_id location)) \<longrightarrow>
      get_forecast wh r today sku region s e incl = (Inr (no_model_response sku region), r) \<and>
      fr_forecasts (no_model_response sku region) = [] \<and>
      fr_model_version (no_model_response sku region) = ''none'' \<and>
      fr_model_name (no_model_response sku region) = ''No model assigned'') \<and>
   (cache_get r (forecast_cache_key sku region
       (isoformat (case e of None \<Rightarrow> today + 14 | Some d \<Rightarrow> d))) = Some cached \<longrightarrow>
      get_forecast wh r today sku region s e incl = (Inr cached, r))"
proof (intro conjI impI)
  assume h: "cache_get r (forecast_cache_key sku region
       (isoformat (case e of None \<Rightarrow> today + 14 | Some d \<Rightarrow> d))) = None \<and>
    filter (\<lambda>p. p_sku p = sku) (dim_products wh) = [product] \<and>
    first_row (filter (\<lambda>l. loc_region l = region) (dim_locations wh)) = Some location \<and>
    (\<forall>a \<in> set (model_assignments wh).
       \<not> (a_product_id a = p_product_id product \<and> a_location_id a = loc_location_id location))"
  then have "select_assignment wh (p_product_id product) (loc_location_id location) = []"
    by (intro select_assignment_none) blast
  with h show "get_forecast wh r today sku region s e incl = (Inr (no_model_response sku region), r)"
    by (intro get_forecast_unassigned) simp_all
  show "fr_forecasts (no_model_response sku region) = []"
    "fr_model_version (no_model_response sku region) = ''none''"
    "fr_model_name (no_model_response sku region) = ''No model assigned''"
    by (simp_all add: no_model_response_def)
next
  assume "cache_get r (forecast_cache_key sku region
       (isoformat (case e of None \<Rightarrow> today + 14 | Some d \<Rightarrow> d))) = Some cached"
  then show "get_forecast wh r today sku region s e incl = (Inr cached, r)"
    by (rule get_forecast_cache_hit)
qed

theorem get_forecast_no_assignment_witness:
  "cache_get (Some []) (forecast_cache_key ''SKU-1'' ''EU''
      (isoformat (case Some 738887 of None \<Rightarrow> 738886 + 14 | Some d \<Rightarrow> d))) = None \<and>
   filter (\<lambda>p. p_sku p = ''SKU-1'') (dim_products unassigned_warehouse) = [demo_product] \<and>
   first_row (filter (\<lambda>l. loc_region l = ''EU'') (dim_locations unassigned_warehouse)) =
     Some demo_location \<and>
   model_assignments unassigned_warehouse = [] \<and>
   get_forecast unassigned_warehouse (Some []) 738886 ''SKU-1'' ''EU'' (Some 738886) (Some 738887) True =
     (Inr (no_model_response ''SKU-1'' ''EU''), Some []) \<and>
   fr_forecasts (no_model_response ''SKU-1'' ''EU'') = [] \<and>
   cache_get (Some [(demo_key, demo_forecast_response [demo_point_1, demo_point_2])])
     (forecast_cache_key ''SKU-1'' ''EU''
        (isoformat (case Some 738887 of None \<Rightarrow> 738886 + 14 | Some d \<Rightarrow> d))) =
     Some (demo_forecast_response [demo_point_1, demo_point_2]) \<and>
   get_forecast unassigned_warehouse
     (Some [(demo_key, demo_forecast_response [demo_point_1, demo_point_2])])
     738886 ''SKU-1'' ''EU'' (Some 738886) (Some 738887) True =
     (Inr (demo_forecast_response [demo_point_1, demo_point_2]),
      Some [(demo_key, demo_forecast_response [demo_point_1, demo_point_2])])"
proof -
  have none: "model_assignments unassigned_warehouse = []"
    by (simp add: unassigned_warehouse_def)
  have a: "get_forecast unassigned_warehouse (Some []) 738886 ''SKU-1'' ''EU'' (Some 738886)
      (Some 738887) True = (Inr (no_model_response ''SKU-1'' ''EU''), Some [])"
    "fr_forecasts (no_model_response ''SKU-1'' ''EU'') = []"
    using get_forecast_no_assignment [where r = "Some []" and sku = "''SKU-1''" and region = "''EU''"
        and e = "Some 738887" and today = 738886 and wh = unassigned_warehouse
        and product = demo_product and location = demo_location and s = "Some 738886"
        and incl = True]
      demo_cache_miss demo_products(2) demo_locations(2) none
    by simp_all
  have b: "get_forecast unassigned_warehouse
     (Some [(demo_key, demo_forecast_response [demo_point_1, demo_point_2])])
     738886 ''SKU-1'' ''EU'' (Some 738886) (Some 738887) True =
     (Inr (demo_forecast_response [demo_point_1, demo_point_2]),
      Some [(demo_key, demo_forecast_response [demo_point_1, demo_point_2])])"
    using get_forecast_no_assignment [where
        r = "Some [(demo_key, demo_forecast_response [demo_point_1, demo_point_2])]"
        and sku = "''SKU-1''" and region = "''EU''" and e = "Some 738887" and today = 738886
        and wh = unassigned_warehouse and product = demo_product and location = demo_location
        and s = "Some 738886" and incl = True
        and cached = "demo_forecast_response [demo_point_1, demo_point_2]"]
      demo_cache_live [of 738886]
    by simp
  show ?thesis
    using a b none demo_cache_miss demo_products(2) demo_locations(2) demo_cache_live [of 738886]
    by simp
qed



section \<open>Feature engineering and the holdout split: proofs\<close>

subsection \<open>Columns of the engineered frame\<close>

lemma length_shift [simp]: "length (shift k xs) = length xs"
  by (simp add: shift_def)

lemma shift_nth: "p < length xs \<Longrightarrow> shift k xs ! p = (if p < k then NaN else xs ! (p - k))"
  by (simp add: shift_def nth_append)

lemma length_rolling [simp]: "length (rolling w m agg xs) = length xs"
  by (simp add: rolling_def)

lemma rolling_nth:
  "p < length xs \<Longrightarrow>
     rolling w m agg xs ! p =
       (if m \<le> length (window_values w xs p) then agg (window_values w xs p) else NaN)"
  by (simp add: rolling_def Let_def)

lemma window_values_shift1:
  "p < length xs \<Longrightarrow>
     window_values w (shift (Suc 0) xs) p = numbers (drop (Suc p - w) (NaN # take p xs))"
  by (simp add: window_values_def shift_def min_def)

lemma numbers_set: "a \<in> set (numbers cs) \<longleftrightarrow> Num a \<in> set cs"
  by (induction cs rule: numbers.induct) auto

lemma length_groupby_transform [simp]: "length (groupby_transform f df) = length df"
  by (simp add: groupby_transform_def)

lemma groupby_transform_nth:
  "p < length df \<Longrightarrow>
     groupby_transform f df ! p = f (group_series df (group_key (df ! p))) ! group_index df p"
  by (simp add: groupby_transform_def)

lemma length_group_series: "length (group_series df g) = length (filter (\<lambda>r. group_key r = g) df)"
  by (simp add: group_series_def)

lemma group_index_less:
  assumes "p < length df"
  shows "group_index df p < length (group_series df (group_key (df ! p)))"
proof -
  let ?P = "\<lambda>r. group_key r = group_key (df ! p)"
  have "df = take p df @ df ! p # drop (Suc p) df"
    using assms by (simp add: id_take_nth_drop)
  then have "filter ?P df = filter ?P (take p df) @ df ! p # filter ?P (drop (Suc p) df)"
    by (metis (mono_tags, lifting) filter.simps(2) filter_append)
  then have "length (filter ?P (take p df)) < length (filter ?P df)"
    by simp
  then show ?thesis
    by (simp add: group_index_def length_group_series)
qed

lemma group_series_single:
  "\<forall>r\<in>set df. group_key r = g \<Longrightarrow> group_series df g = map (\<lambda>r. Num (o_quantity r)) df"
  by (simp add: group_series_def)

lemma group_index_single:
  assumes "\<forall>r\<in>set df. group_key r = g" and "p < length df"
  shows "group_index df p = p"
proof -
  have "\<forall>r\<in>set (take p df). group_key r = group_key (df ! p)"
    using assms by (metis in_set_takeD nth_mem)
  then show ?thesis
    using assms(2) by (simp add: group_index_def)
qed

lemma groupby_transform_single:
  assumes "\<forall>r\<in>set df. group_key r = g" and "p < length df"
  shows "groupby_transform f df ! p = f (map (\<lambda>r. Num (o_quantity r)) df) ! p"
proof -
  have "group_key (df ! p) = g"
    using assms by simp
  then show ?thesis
    using assms(2)
    by (simp add: groupby_transform_nth group_series_single [OF assms(1)]
        group_index_single [OF assms])
qed

lemma window_nonempty:
  assumes "p < length qs" and "0 < p" and "0 < w"
  shows "window_values w (shift (Suc 0) (map Num qs)) p \<noteq> []"
proof -
  let ?L = "NaN # take p (map Num qs)"
  let ?k = "Suc p - w"
  have k: "?k \<le> p"
    using assms by arith
  have "?L ! p = Num (qs ! (p - 1))"
    using assms by (cases p) simp_all
  moreover have "drop ?k ?L ! (p - ?k) = ?L ! p"
    using k assms by (simp del: drop_Suc_Cons)
  moreover have "p - ?k < length (drop ?k ?L)"
    using k assms by simp
  ultimately have "Num (qs ! (p - 1)) \<in> set (drop ?k ?L)"
    by (metis nth_mem)
  then have "qs ! (p - 1) \<in> set (numbers (drop ?k ?L))"
    by (simp add: numbers_set)
  then show ?thesis
    using assms by (auto simp: window_values_shift1)
qed

lemma window_first:
  assumes "0 < length qs" and "0 < w"
  shows "window_values w (shift (Suc 0) (map Num qs)) 0 = []"
  using assms by (simp add: window_values_shift1)

lemma window_subset:
  assumes "p < length qs" and "a \<in> set (window_values w (shift (Suc 0) (map Num qs)) p)"
  shows "a \<in> set qs"
proof -
  have "Num a \<in> set (drop (Suc p - w) (NaN # take p (map Num qs)))"
    using assms by (simp add: window_values_shift1 numbers_set)
  then have "Num a \<in> set (NaN # take p (map Num qs))"
    by (rule in_set_dropD)
  then have "Num a \<in> set (take p (map Num qs))"
    by simp
  then have "Num a \<in> set (map Num qs)"
    by (rule in_set_takeD)
  then show ?thesis
    by auto
qed

lemma sum_list_pos_real:
  fixes vs :: "real list"
  shows "vs \<noteq> [] \<Longrightarrow> \<forall>v\<in>set vs. 0 < v \<Longrightarrow> 0 < sum_list vs"
  by (induction vs rule: list_nonempty_induct) (auto simp: add_pos_pos)

lemma fillna0_nth: "p < length xs \<Longrightarrow> fillna0 xs ! p \<noteq> NaN"
  by (simp add: fillna0_def)

lemma features_at:
  "map snd (map (\<lambda>(name, xs). (name, xs ! p)) cols) = map (\<lambda>c. snd c ! p) cols"
  by (simp add: case_prod_beta)

lemma lag_cols_null:
  assumes "\<forall>r\<in>set df. group_key r = g" and "p < length df"
  shows "NaN \<in> set (map (\<lambda>c. snd c ! p) (add_lag_features df)) \<longleftrightarrow> p < 28"
  using assms
  by (auto simp: add_lag_features_def groupby_transform_single [OF assms] shift_nth)

lemma rolling_cell_eq:
  assumes "\<forall>r\<in>set df. group_key r = g" and "p < length df"
  shows "groupby_transform (\<lambda>x. rolling w 1 agg (shift 1 x)) df ! p =
           (if window_values w (shift (Suc 0) (map Num (map o_quantity df))) p \<noteq> []
            then agg (window_values w (shift (Suc 0) (map Num (map o_quantity df))) p)
            else NaN)"
  using assms(2)
  by (simp add: groupby_transform_single [OF assms(1,2)] rolling_nth comp_def Suc_le_eq)

lemma rolling_cell:
  assumes "\<forall>r\<in>set df. group_key r = g" and "p < length df" and "0 < w"
    and "\<And>vs. vs \<noteq> [] \<Longrightarrow> agg vs \<noteq> NaN"
  shows "groupby_transform (\<lambda>x. rolling w 1 agg (shift 1 x)) df ! p = NaN \<longleftrightarrow> p = 0"
proof (cases "p = 0")
  case True
  have "window_values w (shift (Suc 0) (map Num (map o_quantity df))) 0 = []"
    using assms by (intro window_first) auto
  then show ?thesis
    unfolding rolling_cell_eq [OF assms(1,2)] using True by simp
next
  case False
  have "window_values w (shift (Suc 0) (map Num (map o_quantity df))) p \<noteq> []"
    using assms False by (intro window_nonempty) auto
  then show ?thesis
    unfolding rolling_cell_eq [OF assms(1,2)] using False assms(4) by simp
qed

lemma mean_cell:
  assumes "\<forall>r\<in>set df. group_key r = g" and "\<forall>r\<in>set df. 0 < o_quantity r"
    and "p < length df" and "0 < w"
  shows "\<exists>m. groupby_transform (\<lambda>x. rolling w 1 mean (shift 1 x)) df ! p =
                (if p = 0 then NaN else Num m) \<and> 0 < m"
proof (cases "p = 0")
  case True
  have "window_values w (shift (Suc 0) (map Num (map o_quantity df))) 0 = []"
    using assms by (intro window_first) auto
  then have "groupby_transform (\<lambda>x. rolling w 1 mean (shift 1 x)) df ! p = NaN"
    unfolding rolling_cell_eq [OF assms(1,3)] using True by simp
  then show ?thesis
    using True by (intro exI [of _ 1]) simp
next
  case False
  let ?W = "window_values w (shift (Suc 0) (map Num (map o_quantity df))) p"
  have ne: "?W \<noteq> []"
    using assms False by (intro window_nonempty) auto
  have "\<forall>v\<in>set ?W. 0 < v"
  proof
    fix v
    assume "v \<in> set ?W"
    then have "v \<in> set (map o_quantity df)"
      using window_subset [of p "map o_quantity df" v w] assms(3) by simp
    then show "0 < v"
      using assms(2) by auto
  qed
  then have "0 < sum_list ?W"
    using ne by (intro sum_list_pos_real) auto
  moreover have "0 < real (length ?W)"
    using ne by simp
  ultimately have "0 < sum_list ?W / real (length ?W)"
    by simp
  moreover have "groupby_transform (\<lambda>x. rolling w 1 mean (shift 1 x)) df ! p =
                   Num (sum_list ?W / real (length ?W))"
    unfolding rolling_cell_eq [OF assms(1,3)] using ne by (simp add: mean_def)
  ultimately show ?thesis
    using False by auto
qed

lemma rolling_cols_null:
  assumes "\<forall>r\<in>set df. group_key r = g" and "p < length df"
  shows "NaN \<in> set (map (\<lambda>c. snd c ! p) (add_rolling_features df)) \<longleftrightarrow> p = 0"
proof -
  have cell:
      "(groupby_transform (\<lambda>x. rolling w 1 mean (shift 1 x)) df ! p = NaN \<longleftrightarrow> p = 0) \<and>
       (groupby_transform (\<lambda>x. rolling w 1 min_agg (shift 1 x)) df ! p = NaN \<longleftrightarrow> p = 0) \<and>
       (groupby_transform (\<lambda>x. rolling w 1 max_agg (shift 1 x)) df ! p = NaN \<longleftrightarrow> p = 0)"
    if "0 < w" for w
    using rolling_cell [OF assms that, of mean] rolling_cell [OF assms that, of min_agg]
      rolling_cell [OF assms that, of max_agg]
    by (simp add: mean_def min_agg_def max_agg_def)
  have fill: "\<And>xs. length xs = length df \<Longrightarrow> fillna0 xs ! p \<noteq> NaN"
    using assms(2) by (simp add: fillna0_nth)
  show ?thesis
    using cell [of 7] cell [of 14] cell [of 28] fill
    by (auto simp: add_rolling_features_def rolling_features_of_def eq_commute [of NaN])
qed

lemma column_mean_7d:
  "column (add_rolling_features df) ''qty_rolling_mean_7d'' =
     groupby_transform (\<lambda>x. rolling 7 1 mean (shift 1 x)) df"
  by (simp add: column_def add_rolling_features_def rolling_features_of_def)

lemma column_mean_28d:
  "column (add_rolling_features df) ''qty_rolling_mean_28d'' =
     groupby_transform (\<lambda>x. rolling 28 1 mean (shift 1 x)) df"
  by (simp add: column_def add_rolling_features_def rolling_features_of_def)

lemma trend_cols_null:
  assumes "\<forall>r\<in>set df. group_key r = g" and "\<forall>r\<in>set df. 0 < o_quantity r"
    and "p < length df"
  shows "NaN \<in> set (map (\<lambda>c. snd c ! p) (add_trend_features df (add_rolling_features df)))
           \<longleftrightarrow> p < 8"
proof -
  obtain m7 where m7: "groupby_transform (\<lambda>x. rolling 7 1 mean (shift 1 x)) df ! p =
      (if p = 0 then NaN else Num m7)"
    using mean_cell [OF assms, of 7] by auto
  obtain m28 where m28: "groupby_transform (\<lambda>x. rolling 28 1 mean (shift 1 x)) df ! p =
      (if p = 0 then NaN else Num m28)" and pos28: "0 < m28"
    using mean_cell [OF assms, of 28] by auto
  have ratio: "map2 cell_div (column (add_rolling_features df) ''qty_rolling_mean_7d'')
                 (map cell_add1 (column (add_rolling_features df) ''qty_rolling_mean_28d'')) ! p
               = NaN \<longleftrightarrow> p = 0"
    unfolding column_mean_7d column_mean_28d using assms(3) pos28 m7 m28 by simp
  have q: "0 < o_quantity (df ! (p - 8))"
    using assms(2,3) by (meson less_imp_diff_less nth_mem)
  have wow: "groupby_transform (\<lambda>x. map2 cell_sub (shift 1 x) (shift 8 x)) df ! p = NaN
               \<longleftrightarrow> p < 8"
    using assms(3)
    by (simp add: groupby_transform_single [OF assms(1,3)] shift_nth)
  have pct: "groupby_transform
               (\<lambda>x. map2 cell_div (map2 cell_sub (shift 1 x) (shift 8 x))
                      (map cell_add1 (shift 8 x))) df ! p = NaN \<longleftrightarrow> p < 8"
    using assms(3) q
    by (simp add: groupby_transform_single [OF assms(1,3)] shift_nth)
  show ?thesis
    using wow pct ratio by (auto simp: add_trend_features_def eq_commute [of NaN])
qed

lemma engineered_null:
  assumes "\<forall>r\<in>set df. group_key r = g" and "\<forall>r\<in>set df. 0 < o_quantity r"
    and "p < length df"
  shows "has_null (row_at cal df (add_lag_features df @ add_rolling_features df @
            add_trend_features df (add_rolling_features df)) p) \<longleftrightarrow> p < 28"
proof -
  have "has_null (row_at cal df (add_lag_features df @ add_rolling_features df @
            add_trend_features df (add_rolling_features df)) p) \<longleftrightarrow>
        NaN \<in> set (map (\<lambda>c. snd c ! p) (add_lag_features df)) \<or>
        NaN \<in> set (map (\<lambda>c. snd c ! p) (add_rolling_features df)) \<or>
        NaN \<in> set (map (\<lambda>c. snd c ! p) (add_trend_features df (add_rolling_features df)))"
    by (simp add: has_null_def row_at_def case_prod_beta)
  then show ?thesis
    unfolding lag_cols_null [OF assms(1,3)] rolling_cols_null [OF assms(1,3)]
      trend_cols_null [OF assms]
    by arith
qed

lemma filter_not_less_upt: "filter (\<lambda>p. \<not> p < k) [0..<n] = [k..<n]"
  by (induction n) (auto simp: upt_rec [of k] not_less)

lemma engineer_features_single:
  assumes "\<forall>r\<in>set df. group_key r = g" and "\<forall>r\<in>set df. 0 < o_quantity r"
  shows "engineer_features cal df =
           map (row_at cal df (add_lag_features df @ add_rolling_features df @
                  add_trend_features df (add_rolling_features df))) [28..<length df]"
proof -
  let ?row = "row_at cal df (add_lag_features df @ add_rolling_features df @
                add_trend_features df (add_rolling_features df))"
  have "filter (\<lambda>p. \<not> has_null (?row p)) [0..<length df] =
        filter (\<lambda>p. \<not> p < 28) [0..<length df]"
    by (rule filter_cong) (simp_all add: engineered_null [OF assms])
  then show ?thesis
    by (simp add: engineer_features_def Let_def dropna_def filter_map comp_def
        filter_not_less_upt)
qed

lemma row_at_date [simp]: "row_date (row_at cal df cols p) = o_date (df ! p)"
  by (simp add: row_date_def row_at_def)

lemma row_at_quantity [simp]: "row_quantity (row_at cal df cols p) = o_quantity (df ! p)"
  by (simp add: row_quantity_def row_at_def)

lemma dropna_no_null: "filter has_null (dropna rows) = []"
  by (induction rows) (simp_all add: dropna_def)

lemma engineer_features_no_null: "filter has_null (engineer_features cal df) = []"
  by (simp add: engineer_features_def Let_def dropna_no_null)

subsection \<open>The holdout split\<close>

lemma sort_key_Nil_iff: "sort_key f xs = [] \<longleftrightarrow> xs = []"
  by (metis length_0_conv length_sort)

lemma prepare_train_test_split_eq:
  assumes "df \<noteq> []" and "minus_days (Max (row_date ` set df)) test_days = Some c"
  shows "prepare_train_test_split minus_days df test_days =
           Inr (map x_columns (filter (\<lambda>r. row_date r \<le> c) (sort_key row_date df)),
                map x_columns (filter (\<lambda>r. c < row_date r) (sort_key row_date df)),
                map row_quantity (filter (\<lambda>r. row_date r \<le> c) (sort_key row_date df)),
                map row_quantity (filter (\<lambda>r. c < row_date r) (sort_key row_date df)))"
  using assms by (simp add: prepare_train_test_split_def Let_def sort_key_Nil_iff)


subsection \<open>The scenario of 40 consecutive days\<close>

lemma scenario_single: "\<forall>r\<in>set scenario. group_key r = (''P1'', ''L1'')"
  by (simp add: scenario_def scenario_observation_def group_key_def)

lemma scenario_positive: "\<forall>r\<in>set scenario. 0 < o_quantity r"
  by (auto simp: scenario_def scenario_observation_def intro: add_pos_nonneg)

lemma scenario_length: "length scenario = 40"
  by (simp add: scenario_def)

lemma scenario_engineered:
  "engineer_features cal scenario =
     map (row_at cal scenario (add_lag_features scenario @ add_rolling_features scenario @
            add_trend_features scenario (add_rolling_features scenario))) [28..<40]"
  using engineer_features_single [OF scenario_single scenario_positive, of cal]
  by (simp add: scenario_length)

lemma scenario_dates:
  "map row_date (engineer_features cal scenario) = map (\<lambda>i. 738886 + int i) [28..<40]"
  unfolding scenario_engineered
  by (simp add: scenario_def scenario_observation_def)

lemma scenario_quantities:
  "map row_quantity (engineer_features cal scenario) = map (\<lambda>i. 100 + 5 * real i) [28..<40]"
  unfolding scenario_engineered
  by (simp add: scenario_def scenario_observation_def)

lemma upt_28_40: "[28..<40] = [28, 29, 30, 31, 32, 33, 34, 35, 36, 37, 38, 39::nat]"
  by (simp add: upt_rec)

lemma scenario_date_set:
  "row_date ` set (engineer_features cal scenario) =
     {738914, 738915, 738916, 738917, 738918, 738919, 738920, 738921, 738922, 738923,
      738924, 738925}"
proof -
  have "row_date ` set (engineer_features cal scenario) =
          set (map row_date (engineer_features cal scenario))"
    by simp
  also have "\<dots> = set (map (\<lambda>i. 738886 + int i) [28, 29, 30, 31, 32, 33, 34, 35, 36, 37, 38, 39])"
    unfolding scenario_dates upt_28_40 ..
  finally show ?thesis
    by simp
qed

lemma scenario_sorted:
  "sort_key row_date (engineer_features cal scenario) = engineer_features cal scenario"
proof -
  have "sorted (map row_date (engineer_features cal scenario))"
    unfolding scenario_dates upt_28_40 by simp
  then show ?thesis
    by (rule sort_key_id_if_sorted)
qed

lemma scenario_split:
  "prepare_train_test_split days_before (engineer_features cal scenario) 14 =
     Inr ([], map x_columns (engineer_features cal scenario),
          [], map row_quantity (engineer_features cal scenario))"
proof -
  have ne: "engineer_features cal scenario \<noteq> []"
    using scenario_date_set [of cal] by auto
  have mx: "Max (row_date ` set (engineer_features cal scenario)) = 738925"
    unfolding scenario_date_set by simp
  have cut: "days_before (Max (row_date ` set (engineer_features cal scenario))) 14 = Some 738911"
    unfolding mx by (simp add: days_before_def)
  have late: "\<forall>r\<in>set (engineer_features cal scenario). 738911 < row_date r"
  proof
    fix r
    assume "r \<in> set (engineer_features cal scenario)"
    then have "row_date r \<in> row_date ` set (engineer_features cal scenario)"
      by (rule imageI)
    then show "738911 < row_date r"
      unfolding scenario_date_set by auto
  qed
  then have "filter (\<lambda>r. row_date r \<le> 738911) (engineer_features cal scenario) = []"
    by (auto simp: filter_empty_conv)
  moreover have "filter (\<lambda>r. 738911 < row_date r) (engineer_features cal scenario) =
                   engineer_features cal scenario"
    using late by simp
  ultimately show ?thesis
    unfolding prepare_train_test_split_eq
        [where df = "engineer_features cal scenario" and minus_days = days_before
           and test_days = 14 and c = 738911, OF ne cut]
      scenario_sorted
    by simp
qed

lemma scenario_rows: "length (engineer_features cal scenario) = 12"
  unfolding scenario_engineered by simp






lemma scenario_date_list:
  "map row_date (engineer_features cal scenario) =
     [738914, 738915, 738916, 738917, 738918, 738919, 738920, 738921, 738922, 738923,
      738924, 738925]"
  unfolding scenario_dates upt_28_40 by simp

lemma scenario_quantity_list:
  "map row_quantity (engineer_features cal scenario) =
     [240, 245, 250, 255, 260, 265, 270, 275, 280, 285, 290, 295]"
  unfolding scenario_quantities upt_28_40 by simp




text \<open>
  C4 (counterexample). The claim gives the scenario a training set of exactly 12 rows. The
  12 engineered rows are the 29th to the 40th day; with \<open>test_days = 14\<close> the cutoff is the
  26th day, so the split puts no row in the training set and all 12 in the test set.
\<close>

theorem scenario_training_rows_counterexample:
  "map_sum id (\<lambda>(X_train, X_test, y_train, y_test). (length X_train, length X_test))
     (prepare_train_test_split days_before (engineer_features no_calendar scenario) 14) =
   Inr (0, 12)"
  unfolding scenario_split by (simp add: scenario_rows)

text \<open>
  C4 (amended). For one (product, location) group observed on 40 consecutive days with
  quantities 100, 105, ..., \<open>engineer_features\<close> returns 12 rows, the 29th to the 40th day
  (the first 28 days have no 28-day lag and are dropped), none with a null feature value. The
  holdout split with \<open>test_days = 14\<close> then has its cutoff on the 26th day: the training set is
  empty and the test set holds all 12 rows, the last 12 days, with the quantities 240 to 295.
  This holds whatever the calendar and holiday columns are.
\<close>

theorem scenario_engineer_and_split:
  "length (engineer_features cal scenario) = 12 \<and>
   map row_date (engineer_features cal scenario) =
     [738914, 738915, 738916, 738917, 738918, 738919, 738920, 738921, 738922, 738923,
      738924, 738925] \<and>
   filter has_null (engineer_features cal scenario) = [] \<and>
   prepare_train_test_split days_before (engineer_features cal scenario) 14 =
     Inr ([], map x_columns (engineer_features cal scenario),
          [], [240, 245, 250, 255, 260, 265, 270, 275, 280, 285, 290, 295])"
  unfolding scenario_split scenario_quantity_list
  by (simp add: scenario_rows scenario_date_list engineer_features_no_null)

end
